theory Spec2Isabelle
  imports Main "HOL-Library.Word"
begin

section \<open>Protocol types used by \<^verbatim>\<open>main.go\<close>\<close>

text \<open>
  The program is glue between three libraries: \<^verbatim>\<open>go.lsp.dev/protocol\<close> (the LSP
  message types), \<^verbatim>\<open>go.lsp.dev/jsonrpc2\<close> (the message loop) and Go's
  \<^verbatim>\<open>net/http\<close> and \<^verbatim>\<open>encoding/json\<close>. Their type declarations are not part of the
  repository; the types below carry the fields \<^verbatim>\<open>main.go\<close> reads or writes, every
  other field of the library structs keeps its zero value and is left out.
  Go strings are byte sequences, as \<^typ>\<open>string\<close> is.
\<close>

text \<open>\<^verbatim>\<open>protocol.CompletionItemKind\<close>: the zero value of the Go type, which names no
  kind, and the kinds of the LSP specification in the order of their wire values 1 to
  25.\<close>

datatype CompletionItemKind =
    CompletionItemKindZero
  | CompletionItemKindText
  | CompletionItemKindMethod
  | CompletionItemKindFunction
  | CompletionItemKindConstructor
  | CompletionItemKindField
  | CompletionItemKindVariable
  | CompletionItemKindClass
  | CompletionItemKindInterface
  | CompletionItemKindModule
  | CompletionItemKindProperty
  | CompletionItemKindUnit
  | CompletionItemKindValue
  | CompletionItemKindEnum
  | CompletionItemKindKeyword
  | CompletionItemKindSnippet
  | CompletionItemKindColor
  | CompletionItemKindFile
  | CompletionItemKindReference
  | CompletionItemKindFolder
  | CompletionItemKindEnumMember
  | CompletionItemKindConstant
  | CompletionItemKindStruct
  | CompletionItemKindEvent
  | CompletionItemKindOperator
  | CompletionItemKindTypeParameter

text \<open>\<^verbatim>\<open>protocol.CompletionItem\<close>. The field \<^verbatim>\<open>Kind\<close> is called \<open>ItemKind\<close> here, since
  the backend's candidate struct has a field \<^verbatim>\<open>Kind\<close> of its own.\<close>

record CompletionItem =
  Label :: string
  Detail :: string
  ItemKind :: CompletionItemKind
  InsertText :: string

record CompletionList =
  IsIncomplete :: bool
  Items :: "CompletionItem list"

record CompletionOptions =
  TriggerCharacters :: "string list"

datatype TextDocumentSyncKind =
    TextDocumentSyncKindNone
  | TextDocumentSyncKindFull
  | TextDocumentSyncKindIncremental

record TextDocumentSyncOptions =
  Change :: TextDocumentSyncKind
  OpenClose :: bool

text \<open>Both capabilities are pointers in the library struct: \<open>None\<close> is nil.\<close>

record ServerCapabilities =
  CompletionProvider :: "CompletionOptions option"
  TextDocumentSync :: "TextDocumentSyncOptions option"

record InitializeResult =
  Capabilities :: ServerCapabilities

record Position =
  Line :: "32 word"
  Character :: "32 word"

record TextDocumentIdentifier =
  URI :: string

record CompletionParams =
  TextDocument :: TextDocumentIdentifier
  Pos :: Position

section \<open>Errors and panics\<close>

text \<open>
  A Go \<^verbatim>\<open>error\<close> value is tagged with the library call that produced it; the text is
  the library's message. A panic is not an error value: it unwinds the goroutine and,
  unrecovered, ends the process.
\<close>

datatype go_error =
    MarshalErr string
  | NewRequestErr string
  | RoundTripErr string
  | ReadErr string
  | SyntaxErr
  | UnmarshalTypeErr
  | ParamsErr string
  | WriteErr string

datatype panic =
    NilPointerDereference
  | FilenamePanic

datatype failure = Error go_error | Panic panic

section \<open>\<^verbatim>\<open>convertKind\<close> (main.go, lines 192 to 205)\<close>

definition convertKind :: "string \<Rightarrow> CompletionItemKind" where
  "convertKind omnisharpKind =
     (if omnisharpKind = ''Method'' then CompletionItemKindMethod
      else if omnisharpKind = ''Property'' then CompletionItemKindProperty
      else if omnisharpKind = ''Field'' then CompletionItemKindField
      else if omnisharpKind = ''Class'' then CompletionItemKindClass
      else CompletionItemKindText)"

text \<open>Modelled from the spec: the reverse mapping of the round-trip property ("where a
  reverse mapping is defined for test purposes"). The repository has no such function;
  it is defined on the four named kinds and nowhere else.\<close>

definition kindTag :: "CompletionItemKind \<Rightarrow> string option" where
  "kindTag k =
     (if k = CompletionItemKindMethod then Some ''Method''
      else if k = CompletionItemKindProperty then Some ''Property''
      else if k = CompletionItemKindField then Some ''Field''
      else if k = CompletionItemKindClass then Some ''Class''
      else None)"

section \<open>JSON texts (\<^verbatim>\<open>encoding/json\<close>, the syntax)\<close>

text \<open>
  \<^verbatim>\<open>json.Unmarshal\<close> first checks that its input is one JSON value (RFC 8259) with
  nothing but white space around it, and only then decodes it into the Go value it was
  given. This section is the first half: \<open>json_parse\<close> is \<open>None\<close> where the library
  reports a syntax error, and otherwise the value read, with its strings decoded as the
  library decodes them (escapes resolved, ill-formed UTF-8 replaced by U+FFFD).
\<close>

datatype json =
    JNull
  | JBool bool
  | JNumber string
  | JString string
  | JArray "json list"
  | JObject "(string \<times> json) list"

datatype token =
    TLBrace | TRBrace | TLBracket | TRBracket | TColon | TComma
  | TNull | TTrue | TFalse
  | TNum string
  | TStr string

definition byte :: "char \<Rightarrow> nat" where
  "byte c = of_char c"

definition is_ws :: "char \<Rightarrow> bool" where
  "is_ws c \<longleftrightarrow> byte c = 0x20 \<or> byte c = 0x09 \<or> byte c = 0x0A \<or> byte c = 0x0D"

definition is_digit :: "char \<Rightarrow> bool" where
  "is_digit c \<longleftrightarrow> 0x30 \<le> byte c \<and> byte c \<le> 0x39"

definition is_hex :: "char \<Rightarrow> bool" where
  "is_hex c \<longleftrightarrow> is_digit c \<or> (0x41 \<le> byte c \<and> byte c \<le> 0x46) \<or> (0x61 \<le> byte c \<and> byte c \<le> 0x66)"

definition hex_val :: "char \<Rightarrow> nat" where
  "hex_val c =
     (if is_digit c then byte c - 0x30
      else if 0x61 \<le> byte c then byte c - 0x61 + 10
      else byte c - 0x41 + 10)"

definition getu4 :: "char \<Rightarrow> char \<Rightarrow> char \<Rightarrow> char \<Rightarrow> nat" where
  "getu4 a b c d = ((hex_val a * 16 + hex_val b) * 16 + hex_val c) * 16 + hex_val d"

definition chr :: "nat \<Rightarrow> char" where
  "chr n = char_of n"

text \<open>utf8.EncodeRune on a code point that is no surrogate and at most 0x10FFFF.\<close>

definition EncodeRune :: "nat \<Rightarrow> string" where
  "EncodeRune r =
     (if r < 0x80 then [chr r]
      else if r < 0x800 then [chr (0xC0 + r div 64), chr (0x80 + r mod 64)]
      else if r < 0x10000 then
        [chr (0xE0 + r div 4096), chr (0x80 + r div 64 mod 64), chr (0x80 + r mod 64)]
      else
        [chr (0xF0 + r div 262144), chr (0x80 + r div 4096 mod 64),
         chr (0x80 + r div 64 mod 64), chr (0x80 + r mod 64)])"

definition RuneError :: nat where
  "RuneError = 0xFFFD"

definition is_cont :: "char \<Rightarrow> bool" where
  "is_cont c \<longleftrightarrow> 0x80 \<le> byte c \<and> byte c \<le> 0xBF"

text \<open>The length of the well-formed UTF-8 sequence at the head of the input, 0 when
  there is none (utf8.DecodeRune then yields RuneError with width 1).\<close>

definition utf8_width :: "string \<Rightarrow> nat" where
  "utf8_width s =
     (case s of
        [] \<Rightarrow> 0
      | a # r \<Rightarrow>
          if byte a < 0x80 then 1
          else if 0xC2 \<le> byte a \<and> byte a \<le> 0xDF then
            (case r of b # _ \<Rightarrow> if is_cont b then 2 else 0 | [] \<Rightarrow> 0)
          else if 0xE0 \<le> byte a \<and> byte a \<le> 0xEF then
            (case r of
               b # c # _ \<Rightarrow>
                 if (if byte a = 0xE0 then 0xA0 else 0x80) \<le> byte b
                    \<and> byte b \<le> (if byte a = 0xED then 0x9F else 0xBF) \<and> is_cont c
                 then 3 else 0
             | _ \<Rightarrow> 0)
          else if 0xF0 \<le> byte a \<and> byte a \<le> 0xF4 then
            (case r of
               b # c # d # _ \<Rightarrow>
                 if (if byte a = 0xF0 then 0x90 else 0x80) \<le> byte b
                    \<and> byte b \<le> (if byte a = 0xF4 then 0x8F else 0xBF)
                    \<and> is_cont c \<and> is_cont d
                 then 4 else 0
             | _ \<Rightarrow> 0)
          else 0)"

text \<open>The content of a string literal: the bytes up to the closing quote, with the
  escapes checked, and the rest of the input.\<close>

definition is_escape :: "char \<Rightarrow> bool" where
  "is_escape e \<longleftrightarrow> byte e = 0x22 \<or> byte e = 0x5C \<or> e \<in> set ''/bfnrt''"

fun str_split :: "string \<Rightarrow> (string \<times> string) option" where
  "str_split [] = None"
| "str_split (c # cs) =
     (if byte c = 0x22 then Some ([], cs)
      else if byte c = 0x5C then
        (case cs of
           [] \<Rightarrow> None
         | e # r \<Rightarrow>
             if is_escape e then
               map_option (\<lambda>(raw, rest). (c # e # raw, rest)) (str_split r)
             else if e = CHR ''u'' then
               (case r of
                  h1 # h2 # h3 # h4 # r' \<Rightarrow>
                    if is_hex h1 \<and> is_hex h2 \<and> is_hex h3 \<and> is_hex h4 then
                      map_option (\<lambda>(raw, rest). (c # e # h1 # h2 # h3 # h4 # raw, rest))
                        (str_split r')
                    else None
                | _ \<Rightarrow> None)
             else None)
      else if byte c < 0x20 then None
      else map_option (\<lambda>(raw, rest). (c # raw, rest)) (str_split cs))"

definition unescape :: "char \<Rightarrow> char" where
  "unescape e =
     (if e = CHR ''b'' then chr 0x08
      else if e = CHR ''f'' then chr 0x0C
      else if e = CHR ''n'' then chr 0x0A
      else if e = CHR ''r'' then chr 0x0D
      else if e = CHR ''t'' then chr 0x09
      else e)"

definition IsSurrogate :: "nat \<Rightarrow> bool" where
  "IsSurrogate r \<longleftrightarrow> 0xD800 \<le> r \<and> r < 0xE000"

text \<open>utf16.DecodeRune: the code point of a surrogate pair, RuneError for anything else.\<close>

definition DecodeRune16 :: "nat \<Rightarrow> nat \<Rightarrow> nat" where
  "DecodeRune16 r1 r2 =
     (if 0xD800 \<le> r1 \<and> r1 < 0xDC00 \<and> 0xDC00 \<le> r2 \<and> r2 < 0xE000
      then (r1 - 0xD800) * 1024 + (r2 - 0xDC00) + 0x10000
      else RuneError)"

text \<open>The second half of a surrogate pair: the value of a \<^verbatim>\<open>\uXXXX\<close> escape at the head of
  the input, if there is one.\<close>

definition getu4_at :: "string \<Rightarrow> nat option" where
  "getu4_at s =
     (case s of
        b # u # k1 # k2 # k3 # k4 # _ \<Rightarrow>
          if byte b = 0x5C \<and> u = CHR ''u'' \<and> is_hex k1 \<and> is_hex k2 \<and> is_hex k3 \<and> is_hex k4
          then Some (getu4 k1 k2 k3 k4) else None
      | _ \<Rightarrow> None)"

fun unquote :: "string \<Rightarrow> string" where
  "unquote [] = []"
| "unquote (c # cs) =
     (if byte c = 0x5C then
        (case getu4_at (c # cs) of
           Some rr \<Rightarrow>
             (let r' = drop 5 cs in
              if IsSurrogate rr then
                (case getu4_at r' of
                   Some rr1 \<Rightarrow>
                     if DecodeRune16 rr rr1 \<noteq> RuneError
                     then EncodeRune (DecodeRune16 rr rr1) @ unquote (drop 6 r')
                     else EncodeRune RuneError @ unquote r'
                 | None \<Rightarrow> EncodeRune RuneError @ unquote r')
              else EncodeRune rr @ unquote r')
         | None \<Rightarrow>
             (case cs of
                [] \<Rightarrow> []
              | e # r \<Rightarrow> unescape e # unquote r))
      else if byte c < 0x80 then c # unquote cs
      else
        (let n = utf8_width (c # cs) in
         if n = 0 then EncodeRune RuneError @ unquote cs
         else c # take (n - 1) cs @ unquote (drop (n - 1) cs)))"

text \<open>A number literal at the head of the input and the rest of the input.\<close>

definition lex_digits :: "string \<Rightarrow> (string \<times> string) option" where
  "lex_digits s = (if takeWhile is_digit s = [] then None
                   else Some (takeWhile is_digit s, dropWhile is_digit s))"

definition lex_int :: "string \<Rightarrow> (string \<times> string) option" where
  "lex_int s =
     (case s of
        [] \<Rightarrow> None
      | c # r \<Rightarrow>
          if c = CHR ''0'' then Some ([c], r)
          else if is_digit c then Some (c # takeWhile is_digit r, dropWhile is_digit r)
          else None)"

definition lex_frac :: "string \<Rightarrow> (string \<times> string) option" where
  "lex_frac s =
     (case s of
        [] \<Rightarrow> Some ([], s)
      | c # r \<Rightarrow>
          if c = CHR ''.'' then map_option (\<lambda>(ds, rest). (c # ds, rest)) (lex_digits r)
          else Some ([], s))"

definition lex_exp :: "string \<Rightarrow> (string \<times> string) option" where
  "lex_exp s =
     (case s of
        [] \<Rightarrow> Some ([], s)
      | c # r \<Rightarrow>
          if c = CHR ''e'' \<or> c = CHR ''E'' then
            (case r of
               [] \<Rightarrow> None
             | g # r' \<Rightarrow>
                 if g = CHR ''+'' \<or> g = CHR ''-''
                 then map_option (\<lambda>(ds, rest). (c # g # ds, rest)) (lex_digits r')
                 else map_option (\<lambda>(ds, rest). (c # ds, rest)) (lex_digits r))
          else Some ([], s))"

definition lex_number :: "string \<Rightarrow> (string \<times> string) option" where
  "lex_number s =
     (let (sign, s0) = (case s of [] \<Rightarrow> ([], s) | c # r \<Rightarrow> if c = CHR ''-'' then ([c], r) else ([], s)) in
      case lex_int s0 of
        None \<Rightarrow> None
      | Some (i, s1) \<Rightarrow>
          (case lex_frac s1 of
             None \<Rightarrow> None
           | Some (f, s2) \<Rightarrow>
               (case lex_exp s2 of
                  None \<Rightarrow> None
                | Some (e, s3) \<Rightarrow> Some (sign @ i @ f @ e, s3))))"

lemma lex_digits_len: "lex_digits s = Some (ds, rest) \<Longrightarrow> length rest \<le> length s"
  by (auto simp: lex_digits_def length_dropWhile_le split: if_splits)

lemma str_split_len: "str_split s = Some (raw, rest) \<Longrightarrow> length rest < length s"
proof (induction s arbitrary: raw rest rule: str_split.induct)
  case 1
  then show ?case by simp
next
  case (2 c cs)
  then show ?case
    by (fastforce split: if_splits list.splits)
qed

lemma lex_int_len: "lex_int s = Some (i, rest) \<Longrightarrow> length rest < length s"
  by (auto simp: lex_int_def less_Suc_eq_le length_dropWhile_le split: list.splits if_splits)

lemma lex_frac_len: "lex_frac s = Some (f, rest) \<Longrightarrow> length rest \<le> length s"
  by (auto simp: lex_frac_def split: list.splits if_splits dest!: lex_digits_len)

lemma lex_exp_len: "lex_exp s = Some (e, rest) \<Longrightarrow> length rest \<le> length s"
  by (auto simp: lex_exp_def split: list.splits if_splits dest!: lex_digits_len)

lemma lex_number_len: "lex_number s = Some (lit, rest) \<Longrightarrow> length rest < length s"
proof -
  assume a: "lex_number s = Some (lit, rest)"
  obtain sign s0 where s0: "(case s of [] \<Rightarrow> ([], s) | c # r \<Rightarrow> if c = CHR ''-'' then ([c], r) else ([], s)) = (sign, s0)"
    by (cases "(case s of [] \<Rightarrow> ([], s) | c # r \<Rightarrow> if c = CHR ''-'' then ([c], r) else ([], s))") auto
  then have l0: "length s0 \<le> length s"
    by (auto split: list.splits if_splits)
  from a s0 obtain i s1 f s2 e where
    "lex_int s0 = Some (i, s1)" "lex_frac s1 = Some (f, s2)" "lex_exp s2 = Some (e, rest)"
    by (auto simp: lex_number_def split: option.splits)
  then have "length s1 < length s0" "length s2 \<le> length s1" "length rest \<le> length s2"
    by (auto dest: lex_int_len lex_frac_len lex_exp_len)
  with l0 show ?thesis by simp
qed

definition punct :: "char \<Rightarrow> token option" where
  "punct c =
     (if c = CHR ''{'' then Some TLBrace
      else if c = CHR ''}'' then Some TRBrace
      else if c = CHR ''['' then Some TLBracket
      else if c = CHR '']'' then Some TRBracket
      else if c = CHR '':'' then Some TColon
      else if c = CHR '','' then Some TComma
      else None)"

definition lex_literal :: "string \<Rightarrow> (token \<times> string) option" where
  "lex_literal s =
     (if take 4 s = ''null'' then Some (TNull, drop 4 s)
      else if take 4 s = ''true'' then Some (TTrue, drop 4 s)
      else if take 5 s = ''false'' then Some (TFalse, drop 5 s)
      else None)"

lemma lex_literal_len: "lex_literal s = Some (t, rest) \<Longrightarrow> length rest < length s"
proof -
  assume a: "lex_literal s = Some (t, rest)"
  then have "s \<noteq> []"
    by (auto simp: lex_literal_def)
  moreover from a have "rest = drop 4 s \<or> rest = drop 5 s"
    by (simp add: lex_literal_def split: if_splits)
  ultimately show ?thesis
    by (cases s) auto
qed

text \<open>One step of the lexer: the token at the head of the input (none for a white
  space character) and the rest of the input; \<open>None\<close> when no token starts there.\<close>

definition next_token :: "string \<Rightarrow> (token option \<times> string) option" where
  "next_token s =
     (case s of
        [] \<Rightarrow> None
      | c # cs \<Rightarrow>
          if is_ws c then Some (None, cs)
          else
            (case punct c of
               Some t \<Rightarrow> Some (Some t, cs)
             | None \<Rightarrow>
                 if byte c = 0x22 then
                   map_option (\<lambda>(raw, rest). (Some (TStr (unquote raw)), rest)) (str_split cs)
                 else if c = CHR ''-'' \<or> is_digit c then
                   map_option (\<lambda>(lit, rest). (Some (TNum lit), rest)) (lex_number s)
                 else map_option (\<lambda>(t, rest). (Some t, rest)) (lex_literal s)))"

lemma next_token_len: "next_token s = Some (t, rest) \<Longrightarrow> length rest < length s"
proof (cases s)
  case Nil
  assume "next_token s = Some (t, rest)"
  with Nil show ?thesis by (simp add: next_token_def)
next
  case (Cons c cs)
  assume a: "next_token s = Some (t, rest)"
  consider "rest = cs"
    | raw where "str_split cs = Some (raw, rest)"
    | lit where "lex_number s = Some (lit, rest)"
    | tk where "lex_literal s = Some (tk, rest)"
    using a Cons unfolding next_token_def
    by (auto split: if_splits option.splits)
  then show ?thesis
  proof cases
    case 1
    with Cons show ?thesis by simp
  next
    case 2
    then have "length rest < length cs" by (rule str_split_len)
    with Cons show ?thesis by simp
  next
    case 3
    then show ?thesis by (rule lex_number_len)
  next
    case 4
    then show ?thesis by (rule lex_literal_len)
  qed
qed

function lex :: "string \<Rightarrow> token list option" where
  "lex s =
     (if s = [] then Some []
      else
        (case next_token s of
           None \<Rightarrow> None
         | Some (t, rest) \<Rightarrow>
             map_option (case t of None \<Rightarrow> id | Some tk \<Rightarrow> Cons tk) (lex rest)))"
  by pat_completeness auto
termination
  by (relation "measure length") (auto dest: next_token_len)

declare lex.simps [simp del]

text \<open>The parser: a pushdown automaton over the tokens.\<close>

datatype frame =
    FArr "json list"
  | FObj "(string \<times> json) list"
  | FKey string

datatype pmode =
    PValue
  | PValueOrClose
  | PKeyOrClose
  | PKey
  | PColon
  | PAfter
  | PDone json

definition maxNestingDepth :: nat where
  "maxNestingDepth = 10000"

definition depth :: "frame list \<Rightarrow> nat" where
  "depth st = length (filter (\<lambda>f. case f of FKey _ \<Rightarrow> False | _ \<Rightarrow> True) st)"

fun complete :: "json \<Rightarrow> frame list \<Rightarrow> (pmode \<times> frame list) option" where
  "complete v [] = Some (PDone v, [])"
| "complete v (FArr xs # st) = Some (PAfter, FArr (v # xs) # st)"
| "complete v (FKey k # FObj kvs # st) = Some (PAfter, FObj ((k, v) # kvs) # st)"
| "complete v _ = None"

definition open_value :: "frame \<Rightarrow> pmode \<Rightarrow> frame list \<Rightarrow> (pmode \<times> frame list) option" where
  "open_value f m st = (if depth st < maxNestingDepth then Some (m, f # st) else None)"

fun start_value :: "token \<Rightarrow> frame list \<Rightarrow> (pmode \<times> frame list) option" where
  "start_value TLBracket st = open_value (FArr []) PValueOrClose st"
| "start_value TLBrace st = open_value (FObj []) PKeyOrClose st"
| "start_value TNull st = complete JNull st"
| "start_value TTrue st = complete (JBool True) st"
| "start_value TFalse st = complete (JBool False) st"
| "start_value (TNum n) st = complete (JNumber n) st"
| "start_value (TStr s) st = complete (JString s) st"
| "start_value _ st = None"

fun close_array :: "frame list \<Rightarrow> (pmode \<times> frame list) option" where
  "close_array (FArr xs # st) = complete (JArray (rev xs)) st"
| "close_array _ = None"

fun close_object :: "frame list \<Rightarrow> (pmode \<times> frame list) option" where
  "close_object (FObj kvs # st) = complete (JObject (rev kvs)) st"
| "close_object _ = None"

fun pstep :: "pmode \<Rightarrow> frame list \<Rightarrow> token \<Rightarrow> (pmode \<times> frame list) option" where
  "pstep PValue st t = start_value t st"
| "pstep PValueOrClose st t = (if t = TRBracket then close_array st else start_value t st)"
| "pstep PKeyOrClose st t =
     (case t of TRBrace \<Rightarrow> close_object st | TStr k \<Rightarrow> Some (PColon, FKey k # st) | _ \<Rightarrow> None)"
| "pstep PKey st t = (case t of TStr k \<Rightarrow> Some (PColon, FKey k # st) | _ \<Rightarrow> None)"
| "pstep PColon st t = (if t = TColon then Some (PValue, st) else None)"
| "pstep PAfter st t =
     (case st of
        FArr xs # _ \<Rightarrow>
          (if t = TComma then Some (PValue, st) else if t = TRBracket then close_array st else None)
      | FObj kvs # _ \<Rightarrow>
          (if t = TComma then Some (PKey, st) else if t = TRBrace then close_object st else None)
      | _ \<Rightarrow> None)"
| "pstep (PDone v) st t = None"

fun prun :: "pmode \<Rightarrow> frame list \<Rightarrow> token list \<Rightarrow> json option" where
  "prun m st [] = (case m of PDone v \<Rightarrow> Some v | _ \<Rightarrow> None)"
| "prun m st (t # ts) = (case pstep m st t of None \<Rightarrow> None | Some (m', st') \<Rightarrow> prun m' st' ts)"

definition json_parse :: "string \<Rightarrow> json option" where
  "json_parse s = (case lex s of None \<Rightarrow> None | Some ts \<Rightarrow> prun PValue [] ts)"

section \<open>Decoding the backend's response (\<^verbatim>\<open>encoding/json\<close>, the typed half)\<close>

text \<open>
  The target of \<^verbatim>\<open>json.Unmarshal\<close> in \<^verbatim>\<open>handleCompletion\<close> (main.go, lines 163 to 168)
  is a slice of an anonymous struct of four strings, each tagged with its JSON name;
  the spec calls an element a Candidate.
\<close>

record Candidate =
  CompletionText :: string
  DisplayText :: string
  Documentation :: string
  Kind :: string

definition zero_Candidate :: Candidate where
  "zero_Candidate = \<lparr>CompletionText = [], DisplayText = [], Documentation = [], Kind = []\<rparr>"

datatype field = FieldCompletionText | FieldDisplayText | FieldDocumentation | FieldKind

definition struct_fields :: "field list" where
  "struct_fields = [FieldCompletionText, FieldDisplayText, FieldDocumentation, FieldKind]"

fun json_name :: "field \<Rightarrow> string" where
  "json_name FieldCompletionText = ''CompletionText''"
| "json_name FieldDisplayText = ''DisplayText''"
| "json_name FieldDocumentation = ''Documentation''"
| "json_name FieldKind = ''Kind''"

fun set_field :: "field \<Rightarrow> string \<Rightarrow> Candidate \<Rightarrow> Candidate" where
  "set_field FieldCompletionText s c = c\<lparr>CompletionText := s\<rparr>"
| "set_field FieldDisplayText s c = c\<lparr>DisplayText := s\<rparr>"
| "set_field FieldDocumentation s c = c\<lparr>Documentation := s\<rparr>"
| "set_field FieldKind s c = c\<lparr>Kind := s\<rparr>"

fun get_field :: "field \<Rightarrow> Candidate \<Rightarrow> string" where
  "get_field FieldCompletionText c = CompletionText c"
| "get_field FieldDisplayText c = DisplayText c"
| "get_field FieldDocumentation c = Documentation c"
| "get_field FieldKind c = Kind c"

text \<open>
  The library matches an object key to a field by its name, "preferring an exact match
  but also accepting a case-insensitive match". Case-insensitive is Unicode simple case
  folding; against names made of ASCII letters that is ASCII case folding plus the two
  letters outside ASCII that fold to an ASCII letter: the Kelvin sign U+212A (to K) and
  the long s U+017F (to S). Keys are well-formed UTF-8 here (\<open>unquote\<close> made them so),
  so the byte patterns below are those two letters and nothing else.
\<close>

fun foldName :: "string \<Rightarrow> string" where
  "foldName [] = []"
| "foldName (c # cs) =
     (if 0x61 \<le> byte c \<and> byte c \<le> 0x7A then chr (byte c - 0x20) # foldName cs
      else if byte c = 0xE2 \<and> map byte (take 2 cs) = [0x84, 0xAA] then CHR ''K'' # foldName (drop 2 cs)
      else if byte c = 0xC5 \<and> map byte (take 1 cs) = [0xBF] then CHR ''S'' # foldName (drop 1 cs)
      else c # foldName cs)"

definition find_field :: "string \<Rightarrow> field option" where
  "find_field key =
     (case List.find (\<lambda>f. json_name f = key) struct_fields of
        Some f \<Rightarrow> Some f
      | None \<Rightarrow> List.find (\<lambda>f. foldName (json_name f) = foldName key) struct_fields)"

text \<open>
  A JSON string is stored in a string field; \<^verbatim>\<open>null\<close> leaves the field as it is; any
  other value is an \<^verbatim>\<open>UnmarshalTypeError\<close>. The library goes on decoding after such
  an error and returns the first one at the end; the caller drops the decoded value
  when an error comes back, so the model stops at the first.
\<close>

definition store :: "field \<Rightarrow> json \<Rightarrow> Candidate \<Rightarrow> go_error + Candidate" where
  "store f v c =
     (case v of
        JString s \<Rightarrow> Inr (set_field f s c)
      | JNull \<Rightarrow> Inr c
      | _ \<Rightarrow> Inl UnmarshalTypeErr)"

text \<open>The members of an object in their order: a key that names no field is skipped
  with its value, a key that comes twice is stored twice.\<close>

fun decode_members :: "(string \<times> json) list \<Rightarrow> Candidate \<Rightarrow> go_error + Candidate" where
  "decode_members [] c = Inr c"
| "decode_members ((k, v) # ms) c =
     (case find_field k of
        None \<Rightarrow> decode_members ms c
      | Some f \<Rightarrow>
          (case store f v c of
             Inl e \<Rightarrow> Inl e
           | Inr c' \<Rightarrow> decode_members ms c'))"

definition decode_Candidate :: "json \<Rightarrow> go_error + Candidate" where
  "decode_Candidate v =
     (case v of
        JObject ms \<Rightarrow> decode_members ms zero_Candidate
      | JNull \<Rightarrow> Inr zero_Candidate
      | _ \<Rightarrow> Inl UnmarshalTypeErr)"

fun decode_elements :: "json list \<Rightarrow> go_error + Candidate list" where
  "decode_elements [] = Inr []"
| "decode_elements (v # vs) =
     (case decode_Candidate v of
        Inl e \<Rightarrow> Inl e
      | Inr c \<Rightarrow>
          (case decode_elements vs of
             Inl e \<Rightarrow> Inl e
           | Inr cs \<Rightarrow> Inr (c # cs)))"

text \<open>Into a slice: an array element by element; \<^verbatim>\<open>null\<close> sets the slice to nil
  (length 0) and is no error; every other value is an \<^verbatim>\<open>UnmarshalTypeError\<close>.\<close>

definition decode_slice :: "json \<Rightarrow> go_error + Candidate list" where
  "decode_slice v =
     (case v of
        JArray vs \<Rightarrow> decode_elements vs
      | JNull \<Rightarrow> Inr []
      | _ \<Rightarrow> Inl UnmarshalTypeErr)"

definition json_Unmarshal :: "string \<Rightarrow> go_error + Candidate list" where
  "json_Unmarshal data =
     (case json_parse data of
        None \<Rightarrow> Inl SyntaxErr
      | Some v \<Rightarrow> decode_slice v)"

section \<open>The libraries the program calls\<close>

text \<open>
  What \<^verbatim>\<open>json.Marshal\<close> is given: \<^verbatim>\<open>SendRequest\<close> takes any Go value
  (\<^verbatim>\<open>interface{}\<close>). \<^verbatim>\<open>handleCompletion\<close> passes a map from strings to two
  \<^verbatim>\<open>uint32\<close> and a string; \<open>GoUnsupported\<close> stands for the values the encoder
  refuses (a channel, a function). A map literal is the list of its entries; the
  encoder writes them sorted by key.
\<close>

datatype go_value =
    GoUint32 "32 word"
  | GoString string
  | GoMap "(string \<times> go_value) list"
  | GoUnsupported

fun supported :: "go_value \<Rightarrow> bool" where
  "supported (GoUint32 n) = True"
| "supported (GoString s) = True"
| "supported (GoMap kvs) = list_all (\<lambda>(k, v). supported v) kvs"
| "supported GoUnsupported = False"

record http_Request =
  HttpMethod :: string
  URL :: string
  Header :: "(string \<times> string) list"
  ReqBody :: string

text \<open>A response body is a stream: the bytes that can be read, and the error that ends
  the reading if it does not end at the end of the body.\<close>

datatype body = BodyStream string "string option"

record http_Response =
  StatusCode :: nat
  Body :: body

text \<open>\<^verbatim>\<open>jsonrpc2.Request\<close>: the method name and the parameters, still undecoded.\<close>

record Request =
  Method :: string
  Params :: string

text \<open>
  The behaviour of the libraries and of the world behind them, as parameters of the
  program. An error is the library's message; a panic is \<open>None\<close>.
  \<^item> \<open>json_encode\<close>: the JSON text \<^verbatim>\<open>json.Marshal\<close> writes for a supported value;
  \<^item> \<open>url_Parse_error\<close>: why \<^verbatim>\<open>http.NewRequest\<close> refuses a URL, if it does;
  \<^item> \<open>client_Do\<close>: the round trip \<^verbatim>\<open>(*http.Client).Do\<close> of a request, given how many
    round trips came before it (the backend may answer each differently);
  \<^item> \<open>Filename\<close>: \<^verbatim>\<open>URI.SpanURI().Filename()\<close>, which panics on a URI that names no file;
  \<^item> \<open>UnmarshalTo_InitializeParams\<close>, \<open>UnmarshalTo_CompletionParams\<close>: the decoding of
    a request's parameters (\<^verbatim>\<open>req.Params().UnmarshalTo\<close>); the type of the initialize
    parameters is the library's and is left open (\<open>'ip\<close>);
  \<^item> \<open>stream_Write\<close>: whether writing the n-th reply to standard output fails.
\<close>

record 'ip libs =
  json_encode :: "go_value \<Rightarrow> string"
  url_Parse_error :: "string \<Rightarrow> string option"
  client_Do :: "nat \<Rightarrow> http_Request \<Rightarrow> string + http_Response"
  Filename :: "string \<Rightarrow> string option"
  UnmarshalTo_InitializeParams :: "string \<Rightarrow> string + 'ip"
  UnmarshalTo_CompletionParams :: "string \<Rightarrow> string + CompletionParams"
  stream_Write :: "nat \<Rightarrow> string option"

definition json_Marshal :: "'ip libs \<Rightarrow> go_value \<Rightarrow> go_error + string" where
  "json_Marshal L v =
     (if supported v then Inr (json_encode L v)
      else Inl (MarshalErr ''json: unsupported type''))"

definition http_NewRequest :: "'ip libs \<Rightarrow> string \<Rightarrow> string \<Rightarrow> string \<Rightarrow> go_error + http_Request" where
  "http_NewRequest L method url data =
     (case url_Parse_error L url of
        Some msg \<Rightarrow> Inl (NewRequestErr msg)
      | None \<Rightarrow> Inr \<lparr>HttpMethod = method, URL = url, Header = [], ReqBody = data\<rparr>)"

definition Header_Set :: "string \<Rightarrow> string \<Rightarrow> http_Request \<Rightarrow> http_Request" where
  "Header_Set key val req =
     req\<lparr>Header := filter (\<lambda>(k, v). k \<noteq> key) (Header req) @ [(key, val)]\<rparr>"

fun ioutil_ReadAll :: "body \<Rightarrow> go_error + string" where
  "ioutil_ReadAll (BodyStream data None) = Inr data"
| "ioutil_ReadAll (BodyStream data (Some msg)) = Inl (ReadErr msg)"

section \<open>The state of the program\<close>

datatype HttpClient = DefaultHttpClient

text \<open>\<^verbatim>\<open>OmniSharpClient\<close> (main.go, lines 107 to 110). Its field \<^verbatim>\<open>client\<close> is called
  \<open>httpClient\<close> here, since \<^verbatim>\<open>Server\<close> has a field \<^verbatim>\<open>client\<close> too.\<close>

record OmniSharpClient =
  baseURL :: string
  httpClient :: HttpClient

definition NewOmniSharpClient :: "string \<Rightarrow> OmniSharpClient" where
  "NewOmniSharpClient url = \<lparr>baseURL = url, httpClient = DefaultHttpClient\<rparr>"

datatype Conn = StdioConn

datatype ProtocolClient = ProtocolClient

text \<open>\<^verbatim>\<open>Server\<close> (main.go, lines 142 to 146; the declaration of lines 15 to 18 is the
  same struct without its last field). The three fields are an interface, an interface
  and a pointer: \<open>None\<close> is nil.\<close>

record Server =
  conn :: "Conn option"
  client :: "ProtocolClient option"
  omnisharp :: "OmniSharpClient option"

text \<open>What the program has done to the outside: the HTTP requests it has handed to
  \<^verbatim>\<open>client.Do\<close>, and the replies it has handed to the replier, each with the request
  it answers. A reply is the pair \<^verbatim>\<open>(result, err)\<close> of the Go call.\<close>

datatype lsp_result =
    ResultInitialize InitializeResult
  | ResultCompletion CompletionList

record io_state =
  requests_sent :: "http_Request list"
  replies_sent :: "(Request \<times> (go_error + lsp_result)) list"

type_synonym Replier = "go_error + lsp_result \<Rightarrow> io_state \<Rightarrow> go_error option \<times> io_state"

section \<open>The program (main.go)\<close>

subsection \<open>\<^verbatim>\<open>handleInitialize\<close> (lines 58 to 70)\<close>

definition handleInitialize :: "Server \<Rightarrow> 'ip \<Rightarrow> go_error + InitializeResult" where
  "handleInitialize s params =
     Inr \<lparr>Capabilities =
       \<lparr>CompletionProvider = Some \<lparr>TriggerCharacters = [''.'', '' '']\<rparr>,
        TextDocumentSync = Some \<lparr>Change = TextDocumentSyncKindFull, OpenClose = True\<rparr>\<rparr>\<rparr>"

subsection \<open>\<^verbatim>\<open>SendRequest\<close> (lines 119 to 139)\<close>

text \<open>
  The receiver is a pointer and may be nil: the method is entered all the same, and the
  first read of a field (\<^verbatim>\<open>o.baseURL\<close>, line 125, after the marshalling) panics.
  Go returns the pair \<^verbatim>\<open>(bytes, err)\<close>; when \<^verbatim>\<open>ReadAll\<close> fails the pair holds the
  bytes read so far and the error, and the only caller drops the bytes when the error is
  not nil, so the result here is the error alone.
\<close>

definition SendRequest ::
  "'ip libs \<Rightarrow> OmniSharpClient option \<Rightarrow> string \<Rightarrow> go_value \<Rightarrow> io_state
     \<Rightarrow> (failure + string) \<times> io_state" where
  "SendRequest L o_ptr endpoint request \<sigma> =
     (case json_Marshal L request of
        Inl err \<Rightarrow> (Inl (Error err), \<sigma>)
      | Inr jsonData \<Rightarrow>
          (case o_ptr of
             None \<Rightarrow> (Inl (Panic NilPointerDereference), \<sigma>)
           | Some o' \<Rightarrow>
               (case http_NewRequest L ''POST'' (baseURL o' @ endpoint) jsonData of
                  Inl err \<Rightarrow> (Inl (Error err), \<sigma>)
                | Inr req0 \<Rightarrow>
                    (let req = Header_Set ''Content-Type'' ''application/json'' req0;
                         \<sigma>' = \<sigma>\<lparr>requests_sent := requests_sent \<sigma> @ [req]\<rparr>
                     in case client_Do L (length (requests_sent \<sigma>)) req of
                          Inl msg \<Rightarrow> (Inl (Error (RoundTripErr msg)), \<sigma>')
                        | Inr resp \<Rightarrow>
                            (case ioutil_ReadAll (Body resp) of
                               Inl err \<Rightarrow> (Inl (Error err), \<sigma>')
                             | Inr data \<Rightarrow> (Inr data, \<sigma>'))))))"

subsection \<open>\<^verbatim>\<open>handleCompletion\<close> (lines 149 to 189)\<close>

text \<open>The zero value of \<^verbatim>\<open>protocol.CompletionItem\<close>, which \<^verbatim>\<open>make\<close> fills the slice
  with.\<close>

definition zero_CompletionItem :: CompletionItem where
  "zero_CompletionItem =
     \<lparr>Label = [], Detail = [], ItemKind = CompletionItemKindZero, InsertText = []\<rparr>"

text \<open>The loop of lines 176 to 183, from index \<open>i\<close> on. The index stays below the
  length of \<open>items\<close>, which was made as long as the response.\<close>

fun fill_items :: "nat \<Rightarrow> Candidate list \<Rightarrow> CompletionItem list \<Rightarrow> CompletionItem list" where
  "fill_items i [] items = items"
| "fill_items i (item # rest) items =
     fill_items (Suc i) rest
       (items[i := \<lparr>Label = DisplayText item,
                     Detail = Documentation item,
                     ItemKind = convertKind (Kind item),
                     InsertText = CompletionText item\<rparr>])"

definition handleCompletion ::
  "'ip libs \<Rightarrow> Server \<Rightarrow> CompletionParams \<Rightarrow> io_state
     \<Rightarrow> (failure + CompletionList) \<times> io_state" where
  "handleCompletion L s params \<sigma> =
     (case Filename L (URI (TextDocument params)) of
        None \<Rightarrow> (Inl (Panic FilenamePanic), \<sigma>)
      | Some fileName \<Rightarrow>
          (let omnisharpRequest =
                 GoMap [(''Line'', GoUint32 (Line (Pos params))),
                        (''Column'', GoUint32 (Character (Pos params))),
                        (''FileName'', GoString fileName)]
           in case SendRequest L (omnisharp s) ''/autocomplete'' omnisharpRequest \<sigma> of
                (Inl err, \<sigma>') \<Rightarrow> (Inl err, \<sigma>')
              | (Inr response, \<sigma>') \<Rightarrow>
                  (case json_Unmarshal response of
                     Inl err \<Rightarrow> (Inl (Error err), \<sigma>')
                   | Inr omnisharpResponse \<Rightarrow>
                       (let items = replicate (length omnisharpResponse) zero_CompletionItem
                        in (Inr \<lparr>IsIncomplete = False,
                                 Items = fill_items 0 omnisharpResponse items\<rparr>, \<sigma>')))))"

subsection \<open>\<^verbatim>\<open>handle\<close> (lines 37 to 55)\<close>

definition MethodInitialize :: string where
  "MethodInitialize = ''initialize''"

definition MethodTextDocumentCompletion :: string where
  "MethodTextDocumentCompletion = ''textDocument/completion''"

text \<open>
  The result is what \<^verbatim>\<open>handle\<close> returns (\<open>None\<close> is a nil error), or the panic that ended
  it. \<^verbatim>\<open>reply(ctx, f(...))\<close> passes the result and the error of the handler on to the
  replier and returns what the replier returns.
\<close>

definition handle ::
  "'ip libs \<Rightarrow> Server \<Rightarrow> Replier \<Rightarrow> Request \<Rightarrow> io_state
     \<Rightarrow> (panic + go_error option) \<times> io_state" where
  "handle L s reply req \<sigma> =
     (if Method req = MethodInitialize then
        (case UnmarshalTo_InitializeParams L (Params req) of
           Inl msg \<Rightarrow> (Inr (Some (ParamsErr msg)), \<sigma>)
         | Inr params \<Rightarrow>
             (case reply (map_sum id ResultInitialize (handleInitialize s params)) \<sigma> of
                (r, \<sigma>') \<Rightarrow> (Inr r, \<sigma>')))
      else if Method req = MethodTextDocumentCompletion then
        (case UnmarshalTo_CompletionParams L (Params req) of
           Inl msg \<Rightarrow> (Inr (Some (ParamsErr msg)), \<sigma>)
         | Inr params \<Rightarrow>
             (case handleCompletion L s params \<sigma> of
                (Inl (Panic p), \<sigma>') \<Rightarrow> (Inl p, \<sigma>')
              | (Inl (Error err), \<sigma>') \<Rightarrow>
                  (case reply (Inl err) \<sigma>' of (r, \<sigma>'') \<Rightarrow> (Inr r, \<sigma>''))
              | (Inr list, \<sigma>') \<Rightarrow>
                  (case reply (Inr (ResultCompletion list)) \<sigma>' of (r, \<sigma>'') \<Rightarrow> (Inr r, \<sigma>''))))
      else (Inr None, \<sigma>))"

subsection \<open>\<^verbatim>\<open>Start\<close> and \<^verbatim>\<open>main\<close> (lines 20 to 34 and 100 to 105)\<close>

text \<open>
  Modelled from the spec: the receive loop of \<^verbatim>\<open>jsonrpc2.Conn\<close>, which \<^verbatim>\<open>Start\<close> hands
  \<^verbatim>\<open>handle\<close> to (\<^verbatim>\<open>conn.Go\<close>) and whose code is the library's. Section 4.1: "for each
  message, decode structured parameters according to the declared method, invoke the
  matching handler, encode and send the reply. Runs until the stream is closed by the
  peer or by local error." The replier of a request records the reply and writes it to
  the stream. The spec leaves open whether the loop goes on after a handler has returned
  an error ("must be verified/enforced explicitly"): that is the parameter \<open>policy\<close>.
  A panic of the handler is not recovered and ends the process.
\<close>

datatype policy = AbortOnHandlerError | ContinueOnHandlerError

datatype conn_end =
    StreamClosed
  | ConnFailed go_error
  | Crashed panic

definition conn_replier :: "'ip libs \<Rightarrow> Request \<Rightarrow> Replier" where
  "conn_replier L req reply \<sigma> =
     (map_option WriteErr (stream_Write L (length (replies_sent \<sigma>))),
      \<sigma>\<lparr>replies_sent := replies_sent \<sigma> @ [(req, reply)]\<rparr>)"

fun conn_run ::
  "policy \<Rightarrow> 'ip libs \<Rightarrow> Server \<Rightarrow> Request list \<Rightarrow> io_state \<Rightarrow> conn_end \<times> io_state" where
  "conn_run pol L s [] \<sigma> = (StreamClosed, \<sigma>)"
| "conn_run pol L s (req # incoming) \<sigma> =
     (case handle L s (conn_replier L req) req \<sigma> of
        (Inl p, \<sigma>') \<Rightarrow> (Crashed p, \<sigma>')
      | (Inr None, \<sigma>') \<Rightarrow> conn_run pol L s incoming \<sigma>'
      | (Inr (Some err), \<sigma>') \<Rightarrow>
          (if pol = AbortOnHandlerError then (ConnFailed err, \<sigma>')
           else conn_run pol L s incoming \<sigma>'))"

text \<open>\<^verbatim>\<open>Start\<close> stores the connection in the server, runs the loop over the messages the
  editor sends before it closes the stream, and returns how the connection ended.\<close>

definition Start ::
  "policy \<Rightarrow> 'ip libs \<Rightarrow> Server \<Rightarrow> Request list \<Rightarrow> io_state \<Rightarrow> conn_end \<times> io_state" where
  "Start pol L s incoming \<sigma> = conn_run pol L (s\<lparr>conn := Some StdioConn\<rparr>) incoming \<sigma>"

text \<open>\<^verbatim>\<open>main\<close> builds \<^verbatim>\<open>&Server{}\<close>, every field nil, and starts it on a process that has
  sent nothing yet.\<close>

definition main_Server :: Server where
  "main_Server = \<lparr>conn = None, client = None, omnisharp = None\<rparr>"

definition main_go :: "policy \<Rightarrow> 'ip libs \<Rightarrow> Request list \<Rightarrow> conn_end \<times> io_state" where
  "main_go pol L incoming =
     Start pol L main_Server incoming \<lparr>requests_sent = [], replies_sent = []\<rparr>"

section \<open>The words of the spec\<close>

text \<open>Modelled from the spec: the error taxonomy of section 7. The code has no error
  types of its own and passes on the libraries' errors; a \<open>TransportError\<close> is an error
  of \<^verbatim>\<open>SendRequest\<close> ("connection/marshal/read failure", section 4.2), a \<open>DecodeError\<close> an
  error of a decoding ("malformed request parameters or malformed backend response").\<close>

fun TransportError :: "go_error \<Rightarrow> bool" where
  "TransportError (MarshalErr msg) = True"
| "TransportError (NewRequestErr msg) = True"
| "TransportError (RoundTripErr msg) = True"
| "TransportError (ReadErr msg) = True"
| "TransportError e = False"

fun DecodeError :: "go_error \<Rightarrow> bool" where
  "DecodeError SyntaxErr = True"
| "DecodeError UnmarshalTypeErr = True"
| "DecodeError (ParamsErr msg) = True"
| "DecodeError e = False"

text \<open>Modelled from the spec: a Candidate on the wire, as the backend's contract writes it
  (section 6: "JSON array of {CompletionText, DisplayText, Documentation, Kind}"): an
  object of exactly these four members, each a string, in any order.\<close>

definition Candidate_members :: "Candidate \<Rightarrow> (string \<times> json) list" where
  "Candidate_members c =
     [(''CompletionText'', JString (CompletionText c)),
      (''DisplayText'', JString (DisplayText c)),
      (''Documentation'', JString (Documentation c)),
      (''Kind'', JString (Kind c))]"

fun is_Candidate_json :: "Candidate \<Rightarrow> json \<Rightarrow> bool" where
  "is_Candidate_json c (JObject ms) \<longleftrightarrow>
     distinct (map fst ms) \<and> set ms = set (Candidate_members c)"
| "is_Candidate_json c v \<longleftrightarrow> False"

text \<open>Modelled from the spec: the Completion Item "one-to-one mapped" from a Candidate
  (section 3).\<close>

definition item_of :: "Candidate \<Rightarrow> CompletionItem" where
  "item_of c =
     \<lparr>Label = DisplayText c,
      Detail = Documentation c,
      ItemKind = convertKind (Kind c),
      InsertText = CompletionText c\<rparr>"

text \<open>Modelled from the spec: the request of the backend's HTTP contract (section 6:
  "POST {baseURL}/autocomplete, body {Line, Column, FileName}", with content type
  \<^verbatim>\<open>application/json\<close> by section 4.2), for the client \<open>oc\<close>, the position of \<open>params\<close>
  and the file name \<open>fileName\<close>. The body is the library's encoding of the map.\<close>

definition autocomplete_POST ::
  "'ip libs \<Rightarrow> OmniSharpClient \<Rightarrow> CompletionParams \<Rightarrow> string \<Rightarrow> http_Request" where
  "autocomplete_POST L oc params fileName =
     \<lparr>HttpMethod = ''POST'',
      URL = baseURL oc @ ''/autocomplete'',
      Header = [(''Content-Type'', ''application/json'')],
      ReqBody = json_encode L
        (GoMap [(''Line'', GoUint32 (Line (Pos params))),
                (''Column'', GoUint32 (Character (Pos params))),
                (''FileName'', GoString fileName)])\<rparr>"

section \<open>A stub backend\<close>

text \<open>
  The test double of the spec's examples: a server with a client for a backend at
  \<^verbatim>\<open>http://localhost:2000\<close>, and libraries whose HTTP round trip has the given outcome
  whatever the request. The request is the completion request "at line 10, column 4,
  file Foo.cs".
\<close>

definition stub_Server :: Server where
  "stub_Server =
     \<lparr>conn = Some StdioConn, client = None,
      omnisharp = Some (NewOmniSharpClient ''http://localhost:2000'')\<rparr>"

definition stub_params :: CompletionParams where
  "stub_params =
     \<lparr>TextDocument = \<lparr>URI = ''file:///Foo.cs''\<rparr>, Pos = \<lparr>Line = 10, Character = 4\<rparr>\<rparr>"

definition stub_query :: go_value where
  "stub_query =
     GoMap [(''Line'', GoUint32 10), (''Column'', GoUint32 4), (''FileName'', GoString ''/Foo.cs'')]"

definition stub_libs :: "string + http_Response \<Rightarrow> unit libs" where
  \<open>stub_libs answer =
     \<lparr>json_encode =
        (\<lambda>v. if v = stub_query then ''{"Column":4,"FileName":"/Foo.cs","Line":10}'' else ''null''),
      url_Parse_error = (\<lambda>url. None),
      client_Do = (\<lambda>n req. answer),
      Filename = (\<lambda>uri. if take 7 uri = ''file://'' then Some (drop 7 uri) else None),
      UnmarshalTo_InitializeParams = (\<lambda>raw. Inr ()),
      UnmarshalTo_CompletionParams =
        (\<lambda>raw. if raw = ''Foo.cs:10:4'' then Inr stub_params else Inl ''malformed''),
      stream_Write = (\<lambda>n. None)\<rparr>\<close>

definition stub_request :: Request where
  "stub_request = \<lparr>Method = ''textDocument/completion'', Params = ''Foo.cs:10:4''\<rparr>"

definition stub_body :: string where
  \<open>stub_body = ''[{"CompletionText":"Bar","DisplayText":"Bar()","Documentation":"doc","Kind":"Method"}]''\<close>

definition initialize_request :: Request where
  "initialize_request = \<lparr>Method = ''initialize'', Params = ''{}''\<rparr>"

definition stub_capabilities :: InitializeResult where
  "stub_capabilities =
     \<lparr>Capabilities =
       \<lparr>CompletionProvider = Some \<lparr>TriggerCharacters = [''.'', '' '']\<rparr>,
        TextDocumentSync = Some \<lparr>Change = TextDocumentSyncKindFull, OpenClose = True\<rparr>\<rparr>\<rparr>"

text \<open>Three inputs off the main path: libraries that refuse a URL without a scheme (as
  \<^verbatim>\<open>url.Parse\<close> does, "missing protocol scheme"), a completion request for a document
  that is no file, and a completion request whose parameters do not decode.\<close>

definition strict_libs :: "string + http_Response \<Rightarrow> unit libs" where
  "strict_libs answer =
     (stub_libs answer)
       \<lparr>url_Parse_error :=
          (\<lambda>url. if take 1 url = '':'' then Some ''missing protocol scheme'' else None)\<rparr>"

definition web_params :: CompletionParams where
  "web_params =
     \<lparr>TextDocument = \<lparr>URI = ''http://x/y''\<rparr>, Pos = \<lparr>Line = 10, Character = 4\<rparr>\<rparr>"

definition garbled_request :: Request where
  "garbled_request = \<lparr>Method = ''textDocument/completion'', Params = ''garbled''\<rparr>"

definition io0 :: io_state where
  "io0 = \<lparr>requests_sent = [], replies_sent = []\<rparr>"

section \<open>The kind mapping and the initialize handler\<close>

text \<open>
  Claim C2. \<^verbatim>\<open>convertKind\<close> is total over all strings: it maps \<^verbatim>\<open>Method\<close>, \<^verbatim>\<open>Property\<close>,
  \<^verbatim>\<open>Field\<close> and \<^verbatim>\<open>Class\<close> to the kinds of the same names and every other string to the
  generic Text kind; its result is always one of these five kinds, never an error and
  never the zero value.
\<close>

theorem convertKind_total:
  "convertKind ''Method'' = CompletionItemKindMethod
   \<and> convertKind ''Property'' = CompletionItemKindProperty
   \<and> convertKind ''Field'' = CompletionItemKindField
   \<and> convertKind ''Class'' = CompletionItemKindClass
   \<and> (\<forall>s. s \<noteq> ''Method'' \<and> s \<noteq> ''Property'' \<and> s \<noteq> ''Field'' \<and> s \<noteq> ''Class''
          \<longrightarrow> convertKind s = CompletionItemKindText)
   \<and> (\<forall>s. convertKind s \<in> {CompletionItemKindMethod, CompletionItemKindProperty,
          CompletionItemKindField, CompletionItemKindClass, CompletionItemKindText})"
  by (simp add: convertKind_def)

theorem convertKind_total_witness:
  "convertKind ''Enum'' = CompletionItemKindText
   \<and> convertKind [] = CompletionItemKindText
   \<and> convertKind ''method'' = CompletionItemKindText"
  using convertKind_total by simp

text \<open>
  Claim C6. For every initialize request, whatever its parameters (and whatever the
  server), \<^verbatim>\<open>handleInitialize\<close> returns the same result and no error: completion with
  the trigger characters "." and " ", document sync with change mode Full and openClose
  true.
\<close>

theorem handleInitialize_fixed:
  "handleInitialize s params =
     Inr \<lparr>Capabilities =
       \<lparr>CompletionProvider = Some \<lparr>TriggerCharacters = [''.'', '' '']\<rparr>,
        TextDocumentSync = Some \<lparr>Change = TextDocumentSyncKindFull, OpenClose = True\<rparr>\<rparr>\<rparr>"
  by (simp add: handleInitialize_def)

theorem handleInitialize_fixed_witness:
  "handleInitialize main_Server ''{}'' = handleInitialize stub_Server [(1::nat), 2]"
  by (simp add: handleInitialize_fixed)

text \<open>
  Claim C9. Round trip: for every Candidate whose kind tag is one of \<^verbatim>\<open>Method\<close>,
  \<^verbatim>\<open>Property\<close>, \<^verbatim>\<open>Field\<close>, \<^verbatim>\<open>Class\<close>, the kind of the completion item made from it is
  mapped back to that tag by the reverse mapping.
\<close>

theorem kind_round_trip:
  "Kind c \<in> {''Method'', ''Property'', ''Field'', ''Class''}
   \<Longrightarrow> kindTag (ItemKind (item_of c)) = Some (Kind c)"
  by (auto simp: item_of_def convertKind_def kindTag_def)

theorem kind_round_trip_witness:
  "kindTag (ItemKind (item_of \<lparr>CompletionText = ''Bar'', DisplayText = ''Bar()'',
                               Documentation = ''doc'', Kind = ''Method''\<rparr>)) = Some ''Method''"
  using kind_round_trip
    [of "\<lparr>CompletionText = ''Bar'', DisplayText = ''Bar()'', Documentation = ''doc'', Kind = ''Method''\<rparr>"]
  by simp

section \<open>The dispatch\<close>

text \<open>
  Claim C7. For every incoming message whose method is neither \<^verbatim>\<open>initialize\<close> nor
  \<^verbatim>\<open>textDocument/completion\<close>, \<^verbatim>\<open>handle\<close> does nothing: it returns a nil error, the
  replier is not invoked (whatever replier it is) and nothing is sent.
\<close>

theorem handle_ignores_other_methods:
  "Method req \<noteq> ''initialize'' \<Longrightarrow> Method req \<noteq> ''textDocument/completion''
   \<Longrightarrow> handle L s reply req \<sigma> = (Inr None, \<sigma>)"
  by (simp add: handle_def MethodInitialize_def MethodTextDocumentCompletion_def)

theorem handle_ignores_other_methods_witness:
  "handle (stub_libs (Inl ''connection refused'')) stub_Server
     (conn_replier (stub_libs (Inl ''connection refused'')) \<lparr>Method = ''shutdown'', Params = ''null''\<rparr>)
     \<lparr>Method = ''shutdown'', Params = ''null''\<rparr> io0 = (Inr None, io0)"
  by (rule handle_ignores_other_methods) simp_all

section \<open>The completion handler\<close>

subsection \<open>Auxiliary facts\<close>

text \<open>The loop of \<^verbatim>\<open>handleCompletion\<close> fills the slice with the items of the candidates,
  in their order.\<close>

lemma fill_items_eq:
  "i + length cs = length items \<Longrightarrow> fill_items i cs items = take i items @ map item_of cs"
proof (induction cs arbitrary: i items)
  case Nil
  then show ?case by simp
next
  case (Cons c cs)
  let ?x = "\<lparr>Label = DisplayText c, Detail = Documentation c,
              ItemKind = convertKind (Kind c), InsertText = CompletionText c\<rparr>"
  from Cons.prems have i: "i < length items" by simp
  from Cons.prems have "Suc i + length cs = length (items[i := ?x])" by simp
  then have "fill_items (Suc i) cs (items[i := ?x]) = take (Suc i) (items[i := ?x]) @ map item_of cs"
    by (rule Cons.IH)
  moreover have "take (Suc i) (items[i := ?x]) = take i items @ [?x]"
    using i by (simp add: take_Suc_conv_app_nth)
  ultimately show ?case by (simp add: item_of_def)
qed

text \<open>\<^verbatim>\<open>SendRequest\<close> on a nil client and on a client, and \<^verbatim>\<open>handleCompletion\<close> on
  both.\<close>

lemma SendRequest_nil:
  "supported request \<Longrightarrow>
   SendRequest L None endpoint request \<sigma> = (Inl (Panic NilPointerDereference), \<sigma>)"
  by (simp add: SendRequest_def json_Marshal_def)

lemma SendRequest_client:
  assumes "supported request" and "url_Parse_error L (baseURL oc @ endpoint) = None"
  shows "SendRequest L (Some oc) endpoint request \<sigma> =
     ((case client_Do L (length (requests_sent \<sigma>))
              \<lparr>HttpMethod = ''POST'', URL = baseURL oc @ endpoint,
               Header = [(''Content-Type'', ''application/json'')],
               ReqBody = json_encode L request\<rparr> of
         Inl msg \<Rightarrow> Inl (Error (RoundTripErr msg))
       | Inr resp \<Rightarrow>
           (case ioutil_ReadAll (Body resp) of
              Inl err \<Rightarrow> Inl (Error err)
            | Inr data \<Rightarrow> Inr data)),
      \<sigma>\<lparr>requests_sent := requests_sent \<sigma> @
           [\<lparr>HttpMethod = ''POST'', URL = baseURL oc @ endpoint,
             Header = [(''Content-Type'', ''application/json'')],
             ReqBody = json_encode L request\<rparr>]\<rparr>)"
  using assms
  by (simp add: SendRequest_def json_Marshal_def http_NewRequest_def Header_Set_def Let_def
           split: sum.splits)

lemma handleCompletion_client:
  assumes "omnisharp s = Some oc"
    and "Filename L (URI (TextDocument params)) = Some fileName"
    and "url_Parse_error L (baseURL oc @ ''/autocomplete'') = None"
  shows "handleCompletion L s params \<sigma> =
     ((case client_Do L (length (requests_sent \<sigma>)) (autocomplete_POST L oc params fileName) of
         Inl msg \<Rightarrow> Inl (Error (RoundTripErr msg))
       | Inr resp \<Rightarrow>
           (case ioutil_ReadAll (Body resp) of
              Inl err \<Rightarrow> Inl (Error err)
            | Inr data \<Rightarrow>
                (case json_Unmarshal data of
                   Inl err \<Rightarrow> Inl (Error err)
                 | Inr cs \<Rightarrow> Inr \<lparr>IsIncomplete = False, Items = map item_of cs\<rparr>))),
      \<sigma>\<lparr>requests_sent := requests_sent \<sigma> @ [autocomplete_POST L oc params fileName]\<rparr>)"
  using assms
  by (simp add: handleCompletion_def SendRequest_client autocomplete_POST_def fill_items_eq
           split: sum.splits)

lemma handleCompletion_nil:
  assumes "omnisharp s = None"
  shows "handleCompletion L s params \<sigma> =
     (Inl (Panic (case Filename L (URI (TextDocument params)) of
                    None \<Rightarrow> FilenamePanic | Some f \<Rightarrow> NilPointerDereference)), \<sigma>)"
  using assms
  by (simp add: handleCompletion_def SendRequest_nil split: option.splits)

text \<open>The decoder reads a Candidate back from its object, whatever the order of the
  members.\<close>

lemma find_field_json_name: "find_field (json_name f) = Some f"
  by (cases f) (simp_all add: find_field_def struct_fields_def)

lemma json_name_inj: "json_name f = json_name g \<Longrightarrow> f = g"
  by (cases f; cases g) simp_all

lemma get_set_field: "get_field f (set_field g s c) = (if f = g then s else get_field f c)"
  by (cases f; cases g) simp_all

lemma Candidate_eqI: "(\<And>f. get_field f c = get_field f c') \<Longrightarrow> c = (c' :: Candidate)"
proof -
  assume a: "\<And>f. get_field f c = get_field f c'"
  from a [of FieldCompletionText] a [of FieldDisplayText] a [of FieldDocumentation] a [of FieldKind]
  show ?thesis by simp
qed

lemma decode_members_strings:
  assumes "\<forall>(k, v) \<in> set ms. \<exists>f s. k = json_name f \<and> v = JString s"
    and "distinct (map fst ms)"
  shows "\<exists>c'. decode_members ms c0 = Inr c'
           \<and> (\<forall>f. get_field f c' =
                 (case map_of ms (json_name f) of Some (JString s) \<Rightarrow> s | _ \<Rightarrow> get_field f c0))"
  using assms
proof (induction ms arbitrary: c0)
  case Nil
  then show ?case by simp
next
  case (Cons m ms)
  obtain k v where m: "m = (k, v)" by (cases m)
  with Cons.prems(1) obtain f0 s0 where k: "k = json_name f0" and v: "v = JString s0"
    by auto
  from Cons.prems have "\<forall>(k, v) \<in> set ms. \<exists>f s. k = json_name f \<and> v = JString s" "distinct (map fst ms)"
    by auto
  from Cons.IH [OF this, of "set_field f0 s0 c0"]
  obtain c' where d: "decode_members ms (set_field f0 s0 c0) = Inr c'"
    and g: "\<And>f. get_field f c' =
                 (case map_of ms (json_name f) of Some (JString s) \<Rightarrow> s
                  | _ \<Rightarrow> get_field f (set_field f0 s0 c0))"
    by blast
  from Cons.prems(2) m k have "json_name f0 \<notin> fst ` set ms"
    by simp
  then have n: "map_of ms (json_name f0) = None"
    by (simp add: map_of_eq_None_iff)
  have "decode_members (m # ms) c0 = Inr c'"
    using d by (simp add: m k v find_field_json_name store_def)
  moreover have "get_field f c' =
       (case map_of (m # ms) (json_name f) of Some (JString s) \<Rightarrow> s | _ \<Rightarrow> get_field f c0)" for f
  proof (cases "f = f0")
    case True
    then show ?thesis
      using g [of f0] n by (simp add: m k v get_set_field)
  next
    case False
    then have "json_name f \<noteq> json_name f0"
      using json_name_inj by blast
    then show ?thesis
      using g [of f] False
      by (simp add: m k v get_set_field split: option.splits json.splits)
  qed
  ultimately show ?case by blast
qed

lemma Candidate_members_map:
  "Candidate_members c = map (\<lambda>f. (json_name f, JString (get_field f c))) struct_fields"
  by (simp add: Candidate_members_def struct_fields_def)

lemma field_in_struct_fields: "f \<in> set struct_fields"
  by (cases f) (simp_all add: struct_fields_def)

lemma decode_is_Candidate_json:
  assumes "is_Candidate_json c v"
  shows "decode_Candidate v = Inr c"
proof -
  from assms obtain ms where v: "v = JObject ms" and d: "distinct (map fst ms)"
    and s: "set ms = set (Candidate_members c)"
    by (cases v) auto
  have a: "\<forall>(k, v) \<in> set ms. \<exists>f s. k = json_name f \<and> v = JString s"
    unfolding s Candidate_members_map by auto
  from decode_members_strings [OF a d, of zero_Candidate]
  obtain c' where r: "decode_members ms zero_Candidate = Inr c'"
    and g: "\<And>f. get_field f c' =
                 (case map_of ms (json_name f) of Some (JString s) \<Rightarrow> s
                  | _ \<Rightarrow> get_field f zero_Candidate)"
    by blast
  have "(json_name f, JString (get_field f c)) \<in> set ms" for f
    unfolding s Candidate_members_map using field_in_struct_fields by simp
  then have "map_of ms (json_name f) = Some (JString (get_field f c))" for f
    using d by (simp add: map_of_is_SomeI)
  with g have "get_field f c' = get_field f c" for f
    by simp
  then have "c' = c"
    by (rule Candidate_eqI)
  with r v show ?thesis
    by (simp add: decode_Candidate_def)
qed

lemma decode_elements_Candidates:
  "list_all2 is_Candidate_json cs vs \<Longrightarrow> decode_elements vs = Inr cs"
  by (induction cs vs rule: list_all2_induct) (simp_all add: decode_is_Candidate_json)


lemma json_Unmarshal_Candidates:
  "json_parse data = Some (JArray vs) \<Longrightarrow> list_all2 is_Candidate_json cs vs
   \<Longrightarrow> json_Unmarshal data = Inr cs"
  by (simp add: json_Unmarshal_def decode_slice_def decode_elements_Candidates)

lemma handleCompletion_replies:
  "replies_sent (snd (handleCompletion L s params \<sigma>)) = replies_sent \<sigma>"
  by (simp add: handleCompletion_def SendRequest_def Let_def
           split: option.splits sum.splits prod.splits)

lemma handle_completion:
  assumes "Method req = ''textDocument/completion''"
    and "UnmarshalTo_CompletionParams L (Params req) = Inr params"
  shows "handle L s reply req \<sigma> =
     (case handleCompletion L s params \<sigma> of
        (Inl (Panic p), \<sigma>') \<Rightarrow> (Inl p, \<sigma>')
      | (Inl (Error err), \<sigma>') \<Rightarrow>
          (case reply (Inl err) \<sigma>' of (r, \<sigma>'') \<Rightarrow> (Inr r, \<sigma>''))
      | (Inr list, \<sigma>') \<Rightarrow>
          (case reply (Inr (ResultCompletion list)) \<sigma>' of (r, \<sigma>'') \<Rightarrow> (Inr r, \<sigma>'')))"
  using assms
  by (simp add: handle_def MethodInitialize_def MethodTextDocumentCompletion_def)

lemma conn_run_completion_error:
  assumes "Method req = ''textDocument/completion''"
    and "UnmarshalTo_CompletionParams L (Params req) = Inr params"
    and "handleCompletion L s params \<sigma> = (Inl (Error err), \<sigma>')"
    and "stream_Write L (length (replies_sent \<sigma>)) = None"
  shows "conn_run pol L s (req # incoming) \<sigma> =
     conn_run pol L s incoming (\<sigma>'\<lparr>replies_sent := replies_sent \<sigma> @ [(req, Inl err)]\<rparr>)"
proof -
  have r: "replies_sent \<sigma>' = replies_sent \<sigma>"
    using handleCompletion_replies [of L s params \<sigma>] assms(3) by simp
  have "handle L s (conn_replier L req) req \<sigma> =
          (Inr None, \<sigma>'\<lparr>replies_sent := replies_sent \<sigma> @ [(req, Inl err)]\<rparr>)"
    using assms(3,4) r
    by (simp add: handle_completion [OF assms(1,2)] conn_replier_def)
  then show ?thesis by simp
qed

lemma decode_members_error: "decode_members ms c = Inl e \<Longrightarrow> e = UnmarshalTypeErr"
  by (induction ms c rule: decode_members.induct)
     (auto simp: store_def split: option.splits sum.splits json.splits)

lemma decode_elements_error: "decode_elements vs = Inl e \<Longrightarrow> e = UnmarshalTypeErr"
  by (induction vs)
     (auto simp: decode_Candidate_def split: sum.splits json.splits dest: decode_members_error)

lemma json_Unmarshal_error: "json_Unmarshal data = Inl e \<Longrightarrow> DecodeError e"
  by (auto simp: json_Unmarshal_def decode_slice_def
        split: option.splits json.splits dest: decode_elements_error)

lemma DecodeError_not_TransportError: "DecodeError e \<Longrightarrow> \<not> TransportError e"
  by (cases e) simp_all

lemma stub_facts:
  "omnisharp stub_Server = Some (NewOmniSharpClient ''http://localhost:2000'')"
  "Filename (stub_libs answer) (URI (TextDocument stub_params)) = Some ''/Foo.cs''"
  "url_Parse_error (stub_libs answer) url = None"
  "client_Do (stub_libs answer) n r = answer"
  "Method stub_request = ''textDocument/completion''"
  "UnmarshalTo_CompletionParams (stub_libs answer) (Params stub_request) = Inr stub_params"
  "stream_Write (stub_libs answer) n = None"
  by (simp_all add: stub_Server_def stub_libs_def stub_params_def stub_request_def)

lemma stub_POST:
  \<open>autocomplete_POST (stub_libs answer) (NewOmniSharpClient ''http://localhost:2000'') stub_params ''/Foo.cs''
   = \<lparr>HttpMethod = ''POST'', URL = ''http://localhost:2000/autocomplete'',
      Header = [(''Content-Type'', ''application/json'')],
      ReqBody = ''{"Column":4,"FileName":"/Foo.cs","Line":10}''\<rparr>\<close>
  by (simp add: autocomplete_POST_def stub_libs_def NewOmniSharpClient_def stub_params_def stub_query_def)

lemma conn_run_initialize_last:
  "conn_run pol (stub_libs answer) s [initialize_request] \<sigma> =
     (StreamClosed, \<sigma>\<lparr>replies_sent := replies_sent \<sigma> @
        [(initialize_request, Inr (ResultInitialize stub_capabilities))]\<rparr>)"
  by (simp add: handle_def MethodInitialize_def initialize_request_def stub_libs_def
        handleInitialize_def conn_replier_def stub_capabilities_def)

text \<open>A server without a client sends no HTTP request, whatever it is asked.\<close>

lemma handle_nil_requests:
  assumes "omnisharp s = None"
  shows "requests_sent (snd (handle L s (conn_replier L req) req \<sigma>)) = requests_sent \<sigma>"
  using assms
  by (simp add: handle_def handleCompletion_nil conn_replier_def split: sum.splits)

lemma conn_run_nil_requests:
  assumes "omnisharp s = None"
  shows "requests_sent (snd (conn_run pol L s incoming \<sigma>)) = requests_sent \<sigma>"
proof (induction incoming arbitrary: \<sigma>)
  case Nil
  then show ?case by simp
next
  case (Cons req incoming)
  obtain r \<sigma>' where h: "handle L s (conn_replier L req) req \<sigma> = (r, \<sigma>')"
    by (cases "handle L s (conn_replier L req) req \<sigma>")
  then have "requests_sent \<sigma>' = requests_sent \<sigma>"
    using handle_nil_requests [OF assms, of L req \<sigma>] by simp
  with h Cons.IH [of \<sigma>'] show ?case
    by (simp split: sum.splits option.splits)
qed

subsection \<open>Failures of the backend\<close>

text \<open>
  Claim C4. If the backend is unreachable (the HTTP round trip of the completion request
  fails), then, on a server that has a client: \<^verbatim>\<open>handleCompletion\<close> fails with the error
  of the round trip, a TransportError; \<^verbatim>\<open>handle\<close> does not panic, hands that error to the
  replier, once, and returns what the replier returns; and when the reply can be written,
  the loop goes on with the messages that follow exactly as it would have without this
  request, under either policy for handler errors: the failure is that of this request
  only.
\<close>

theorem unreachable_backend:
  assumes "omnisharp s = Some oc"
    and "Filename L (URI (TextDocument params)) = Some fileName"
    and "url_Parse_error L (baseURL oc @ ''/autocomplete'') = None"
    and "client_Do L (length (requests_sent \<sigma>)) (autocomplete_POST L oc params fileName) = Inl msg"
    and "Method req = ''textDocument/completion''"
    and "UnmarshalTo_CompletionParams L (Params req) = Inr params"
    and "stream_Write L (length (replies_sent \<sigma>)) = None"
  shows "fst (handleCompletion L s params \<sigma>) = Inl (Error (RoundTripErr msg))
    \<and> TransportError (RoundTripErr msg)
    \<and> handle L s reply req \<sigma> =
        (case reply (Inl (RoundTripErr msg))
                (\<sigma>\<lparr>requests_sent := requests_sent \<sigma> @ [autocomplete_POST L oc params fileName]\<rparr>) of
           (r, \<sigma>'') \<Rightarrow> (Inr r, \<sigma>''))
    \<and> conn_run pol L s (req # incoming) \<sigma> =
        conn_run pol L s incoming
          (\<sigma>\<lparr>requests_sent := requests_sent \<sigma> @ [autocomplete_POST L oc params fileName],
             replies_sent := replies_sent \<sigma> @ [(req, Inl (RoundTripErr msg))]\<rparr>)"
proof -
  let ?\<sigma>' = "\<sigma>\<lparr>requests_sent := requests_sent \<sigma> @ [autocomplete_POST L oc params fileName]\<rparr>"
  have hc: "handleCompletion L s params \<sigma> = (Inl (Error (RoundTripErr msg)), ?\<sigma>')"
    using assms(4) by (simp add: handleCompletion_client [OF assms(1,2,3)])
  have "handle L s reply req \<sigma> =
        (case reply (Inl (RoundTripErr msg)) ?\<sigma>' of (r, \<sigma>'') \<Rightarrow> (Inr r, \<sigma>''))"
    by (simp add: handle_completion [OF assms(5,6)] hc)
  moreover have "conn_run pol L s (req # incoming) \<sigma> =
        conn_run pol L s incoming (?\<sigma>'\<lparr>replies_sent := replies_sent \<sigma> @ [(req, Inl (RoundTripErr msg))]\<rparr>)"
    by (rule conn_run_completion_error [OF assms(5,6) hc assms(7)])
  ultimately show ?thesis using hc by simp
qed

theorem unreachable_backend_witness:
  \<open>fst (handleCompletion (stub_libs (Inl ''connection refused'')) stub_Server stub_params io0)
     = Inl (Error (RoundTripErr ''connection refused''))
   \<and> conn_run AbortOnHandlerError (stub_libs (Inl ''connection refused'')) stub_Server
        [stub_request, initialize_request] io0
     = (StreamClosed,
        \<lparr>requests_sent =
           [\<lparr>HttpMethod = ''POST'', URL = ''http://localhost:2000/autocomplete'',
             Header = [(''Content-Type'', ''application/json'')],
             ReqBody = ''{"Column":4,"FileName":"/Foo.cs","Line":10}''\<rparr>],
         replies_sent =
           [(stub_request, Inl (RoundTripErr ''connection refused'')),
            (initialize_request, Inr (ResultInitialize stub_capabilities))]\<rparr>)\<close>
proof -
  let ?L = "stub_libs (Inl ''connection refused'') :: unit libs"
  have w: "stream_Write ?L (length (replies_sent io0)) = None"
    by (rule stub_facts)
  have d: "client_Do ?L (length (requests_sent io0))
             (autocomplete_POST ?L (NewOmniSharpClient ''http://localhost:2000'') stub_params ''/Foo.cs'')
           = Inl ''connection refused''"
    by (rule stub_facts)
  note t = unreachable_backend [OF stub_facts(1) stub_facts(2) stub_facts(3) d stub_facts(5) stub_facts(6) w,
      where pol = AbortOnHandlerError and incoming = "[initialize_request]"]
  from t [THEN conjunct1] t [THEN conjunct2, THEN conjunct2, THEN conjunct2]
  show ?thesis
    by (simp add: conn_run_initialize_last stub_POST io0_def del: conn_run.simps)
qed


text \<open>
  Claim C5, amended. If the body the backend returns is not valid JSON, or is valid JSON
  whose value is neither an array nor \<^verbatim>\<open>null\<close>, then \<^verbatim>\<open>handleCompletion\<close> fails with a
  DecodeError (a syntax error for the first, a type error for the second); \<^verbatim>\<open>handle\<close>
  does not panic and hands the error to the replier, and when the reply can be written
  the loop goes on with the messages that follow. (The body \<^verbatim>\<open>null\<close> is not an array and
  is no failure: see the counterexample.)
\<close>

theorem malformed_body:
  assumes "omnisharp s = Some oc"
    and "Filename L (URI (TextDocument params)) = Some fileName"
    and "url_Parse_error L (baseURL oc @ ''/autocomplete'') = None"
    and "client_Do L (length (requests_sent \<sigma>)) (autocomplete_POST L oc params fileName) = Inr resp"
    and "Body resp = BodyStream data None"
    and "json_parse data = None
         \<or> (\<exists>v. json_parse data = Some v \<and> v \<noteq> JNull \<and> (\<forall>vs. v \<noteq> JArray vs))"
    and "Method req = ''textDocument/completion''"
    and "UnmarshalTo_CompletionParams L (Params req) = Inr params"
    and "stream_Write L (length (replies_sent \<sigma>)) = None"
    and "err = (if json_parse data = None then SyntaxErr else UnmarshalTypeErr)"
  shows "fst (handleCompletion L s params \<sigma>) = Inl (Error err)
    \<and> DecodeError err
    \<and> handle L s reply req \<sigma> =
        (case reply (Inl err)
                (\<sigma>\<lparr>requests_sent := requests_sent \<sigma> @ [autocomplete_POST L oc params fileName]\<rparr>) of
           (r, \<sigma>'') \<Rightarrow> (Inr r, \<sigma>''))
    \<and> conn_run pol L s (req # incoming) \<sigma> =
        conn_run pol L s incoming
          (\<sigma>\<lparr>requests_sent := requests_sent \<sigma> @ [autocomplete_POST L oc params fileName],
             replies_sent := replies_sent \<sigma> @ [(req, Inl err)]\<rparr>)"
proof -
  let ?\<sigma>' = "\<sigma>\<lparr>requests_sent := requests_sent \<sigma> @ [autocomplete_POST L oc params fileName]\<rparr>"
  have u: "json_Unmarshal data = Inl err"
    using assms(6,10)
    by (auto simp: json_Unmarshal_def decode_slice_def split: json.splits)
  have hc: "handleCompletion L s params \<sigma> = (Inl (Error err), ?\<sigma>')"
    using assms(4,5) u by (simp add: handleCompletion_client [OF assms(1,2,3)])
  have "handle L s reply req \<sigma> = (case reply (Inl err) ?\<sigma>' of (r, \<sigma>'') \<Rightarrow> (Inr r, \<sigma>''))"
    by (simp add: handle_completion [OF assms(7,8)] hc)
  moreover have "conn_run pol L s (req # incoming) \<sigma> =
        conn_run pol L s incoming (?\<sigma>'\<lparr>replies_sent := replies_sent \<sigma> @ [(req, Inl err)]\<rparr>)"
    by (rule conn_run_completion_error [OF assms(7,8) hc assms(9)])
  moreover have "DecodeError err"
    using u by (rule json_Unmarshal_error)
  ultimately show ?thesis using hc by simp
qed

theorem malformed_body_witness:
  \<open>fst (handleCompletion
          (stub_libs (Inr \<lparr>StatusCode = 502, Body = BodyStream ''<html>Bad Gateway</html>'' None\<rparr>))
          stub_Server stub_params io0)
     = Inl (Error SyntaxErr)
   \<and> fst (handleCompletion
          (stub_libs (Inr \<lparr>StatusCode = 200, Body = BodyStream ''{"error":"no such file"}'' None\<rparr>))
          stub_Server stub_params io0)
     = Inl (Error UnmarshalTypeErr)
   \<and> conn_run ContinueOnHandlerError
        (stub_libs (Inr \<lparr>StatusCode = 502, Body = BodyStream ''<html>Bad Gateway</html>'' None\<rparr>))
        stub_Server [stub_request, initialize_request] io0
     = (StreamClosed,
        \<lparr>requests_sent =
           [\<lparr>HttpMethod = ''POST'', URL = ''http://localhost:2000/autocomplete'',
             Header = [(''Content-Type'', ''application/json'')],
             ReqBody = ''{"Column":4,"FileName":"/Foo.cs","Line":10}''\<rparr>],
         replies_sent =
           [(stub_request, Inl SyntaxErr),
            (initialize_request, Inr (ResultInitialize stub_capabilities))]\<rparr>)\<close>
proof -
  let ?r1 = "\<lparr>StatusCode = 502, Body = BodyStream ''<html>Bad Gateway</html>'' None\<rparr>"
  let ?L1 = "stub_libs (Inr ?r1) :: unit libs"
  have p1: "json_parse ''<html>Bad Gateway</html>'' = None"
    by code_simp
  have s1: "json_parse ''<html>Bad Gateway</html>'' = None
      \<or> (\<exists>v. json_parse ''<html>Bad Gateway</html>'' = Some v \<and> v \<noteq> JNull \<and> (\<forall>vs. v \<noteq> JArray vs))"
    using p1 by simp
  have d1: "client_Do ?L1 (length (requests_sent io0))
             (autocomplete_POST ?L1 (NewOmniSharpClient ''http://localhost:2000'') stub_params ''/Foo.cs'')
           = Inr ?r1"
    by (rule stub_facts)
  have b1: "Body ?r1 = BodyStream ''<html>Bad Gateway</html>'' None"
    by simp
  have w1: "stream_Write ?L1 (length (replies_sent io0)) = None"
    by (rule stub_facts)
  note t1 = malformed_body [OF stub_facts(1) stub_facts(2) stub_facts(3) d1 b1 s1
      stub_facts(5) stub_facts(6) w1 refl,
      where pol = ContinueOnHandlerError and incoming = "[initialize_request]"]
  let ?r2 = \<open>\<lparr>StatusCode = 200, Body = BodyStream ''{"error":"no such file"}'' None\<rparr>\<close>
  let ?L2 = "stub_libs (Inr ?r2) :: unit libs"
  have p2: \<open>json_parse ''{"error":"no such file"}'' = Some (JObject [(''error'', JString ''no such file'')])\<close>
    by code_simp
  have s2: \<open>json_parse ''{"error":"no such file"}'' = None
      \<or> (\<exists>v. json_parse ''{"error":"no such file"}'' = Some v \<and> v \<noteq> JNull \<and> (\<forall>vs. v \<noteq> JArray vs))\<close>
    using p2 by simp
  have d2: "client_Do ?L2 (length (requests_sent io0))
             (autocomplete_POST ?L2 (NewOmniSharpClient ''http://localhost:2000'') stub_params ''/Foo.cs'')
           = Inr ?r2"
    by (rule stub_facts)
  have b2: \<open>Body ?r2 = BodyStream ''{"error":"no such file"}'' None\<close>
    by simp
  have w2: "stream_Write ?L2 (length (replies_sent io0)) = None"
    by (rule stub_facts)
  note t2 = malformed_body [OF stub_facts(1) stub_facts(2) stub_facts(3) d2 b2 s2
      stub_facts(5) stub_facts(6) w2 refl,
      where pol = ContinueOnHandlerError and incoming = "[initialize_request]"]
  from t1 [THEN conjunct1] t1 [THEN conjunct2, THEN conjunct2, THEN conjunct2] t2 [THEN conjunct1]
  show ?thesis
    by (simp add: p1 p2 conn_run_initialize_last stub_POST io0_def del: conn_run.simps)
qed

text \<open>The claim as stated fails on the body \<^verbatim>\<open>null\<close>: it is valid JSON and not an array,
  the library decodes it into a nil slice without an error, and the handler returns an
  empty completion list.\<close>

theorem null_body_counterexample:
  "json_parse ''null'' = Some JNull
   \<and> fst (handleCompletion (stub_libs (Inr \<lparr>StatusCode = 200, Body = BodyStream ''null'' None\<rparr>))
            stub_Server stub_params io0)
       = Inr \<lparr>IsIncomplete = False, Items = []\<rparr>"
proof -
  have p: "json_parse ''null'' = Some JNull" by code_simp
  have u: "json_Unmarshal ''null'' = Inr []"
    by (simp add: json_Unmarshal_def p decode_slice_def)
  show ?thesis
    by (simp add: p u handleCompletion_client [OF stub_facts(1,2,3)] stub_facts(4))
qed


subsection \<open>The completion list\<close>

text \<open>
  Claim C1. On a server that has a client, when the backend answers the completion
  request with a body that is a JSON array of n Candidates, \<^verbatim>\<open>handleCompletion\<close> returns a
  completion list with \<open>isIncomplete\<close> false and exactly n items in the order of the
  array: item i has the label of candidate i's DisplayText, the detail of its
  Documentation, the insert text of its CompletionText and the kind \<^verbatim>\<open>convertKind\<close> of its
  Kind. The witness is the stub backend of the spec: one candidate \<^verbatim>\<open>Bar\<close>, one item with
  label \<^verbatim>\<open>Bar()\<close>, detail \<^verbatim>\<open>doc\<close>, insert text \<^verbatim>\<open>Bar\<close> and kind Method.
\<close>

theorem handleCompletion_items:
  assumes "omnisharp s = Some oc"
    and "Filename L (URI (TextDocument params)) = Some fileName"
    and "url_Parse_error L (baseURL oc @ ''/autocomplete'') = None"
    and "client_Do L (length (requests_sent \<sigma>)) (autocomplete_POST L oc params fileName) = Inr resp"
    and "Body resp = BodyStream data None"
    and "json_parse data = Some (JArray vs)"
    and "list_all2 is_Candidate_json cs vs"
  shows "\<exists>list. fst (handleCompletion L s params \<sigma>) = Inr list
    \<and> IsIncomplete list = False
    \<and> length (Items list) = length cs
    \<and> (\<forall>i<length cs.
          Label (Items list ! i) = DisplayText (cs ! i)
          \<and> Detail (Items list ! i) = Documentation (cs ! i)
          \<and> InsertText (Items list ! i) = CompletionText (cs ! i)
          \<and> ItemKind (Items list ! i) = convertKind (Kind (cs ! i)))"
proof -
  have "json_Unmarshal data = Inr cs"
    using assms(6,7) by (rule json_Unmarshal_Candidates)
  then have "fst (handleCompletion L s params \<sigma>) = Inr \<lparr>IsIncomplete = False, Items = map item_of cs\<rparr>"
    using assms(4,5) by (simp add: handleCompletion_client [OF assms(1,2,3)])
  then show ?thesis
    by (simp add: item_of_def)
qed

theorem handleCompletion_items_witness:
  "\<exists>list. fst (handleCompletion (stub_libs (Inr \<lparr>StatusCode = 200, Body = BodyStream stub_body None\<rparr>))
                 stub_Server stub_params io0) = Inr list
    \<and> IsIncomplete list = False
    \<and> length (Items list) = 1
    \<and> Label (Items list ! 0) = ''Bar()''
    \<and> Detail (Items list ! 0) = ''doc''
    \<and> InsertText (Items list ! 0) = ''Bar''
    \<and> ItemKind (Items list ! 0) = CompletionItemKindMethod"
proof -
  let ?r = "\<lparr>StatusCode = 200, Body = BodyStream stub_body None\<rparr>"
  let ?L = "stub_libs (Inr ?r) :: unit libs"
  let ?c = "\<lparr>CompletionText = ''Bar'', DisplayText = ''Bar()'', Documentation = ''doc'', Kind = ''Method''\<rparr>"
  have p: "json_parse stub_body = Some (JArray [JObject (Candidate_members ?c)])"
    by code_simp
  have c: "list_all2 is_Candidate_json [?c] [JObject (Candidate_members ?c)]"
    by (simp add: Candidate_members_def)
  have d: "client_Do ?L (length (requests_sent io0))
             (autocomplete_POST ?L (NewOmniSharpClient ''http://localhost:2000'') stub_params ''/Foo.cs'')
           = Inr ?r"
    by (rule stub_facts)
  have b: "Body ?r = BodyStream stub_body None"
    by simp
  from handleCompletion_items [OF stub_facts(1) stub_facts(2) stub_facts(3) d b p c]
  show ?thesis
    by (simp add: convertKind_def)
qed


subsection \<open>The request to the backend\<close>

text \<open>
  Claim C8, amended. For every completion request whose URI names a file, on a server
  that has a client whose URL the library accepts: \<^verbatim>\<open>handleCompletion\<close> hands exactly one
  HTTP request to the client, a POST to the base URL followed by \<^verbatim>\<open>/autocomplete\<close>, with
  the one header Content-Type \<^verbatim>\<open>application/json\<close> and as body the JSON encoding of the
  map of Line (the line of the request), Column (its character) and FileName (the file
  name of its URI); and when the round trip returns a response whose body can be read to
  its end, \<^verbatim>\<open>SendRequest\<close> returns all the bytes of the body.
\<close>

theorem completion_issues_one_POST:
  fixes L :: "'ip libs"
  defines "query params fileName \<equiv>
      GoMap [(''Line'', GoUint32 (Line (Pos params))),
             (''Column'', GoUint32 (Character (Pos params))),
             (''FileName'', GoString fileName)]"
  defines "post oc params fileName \<equiv>
      \<lparr>HttpMethod = ''POST'',
       URL = baseURL oc @ ''/autocomplete'',
       Header = [(''Content-Type'', ''application/json'')],
       ReqBody = json_encode L (query params fileName)\<rparr>"
  assumes "omnisharp s = Some oc"
    and "Filename L (URI (TextDocument params)) = Some fileName"
    and "url_Parse_error L (baseURL oc @ ''/autocomplete'') = None"
  shows "requests_sent (snd (handleCompletion L s params \<sigma>))
           = requests_sent \<sigma> @ [post oc params fileName]
    \<and> (\<forall>resp data.
          client_Do L (length (requests_sent \<sigma>)) (post oc params fileName) = Inr resp
          \<and> Body resp = BodyStream data None
          \<longrightarrow> SendRequest L (omnisharp s) ''/autocomplete'' (query params fileName) \<sigma>
                = (Inr data, \<sigma>\<lparr>requests_sent := requests_sent \<sigma> @ [post oc params fileName]\<rparr>))"
proof -
  have p: "post oc params fileName = autocomplete_POST L oc params fileName"
    by (simp add: post_def query_def autocomplete_POST_def)
  have "requests_sent (snd (handleCompletion L s params \<sigma>))
           = requests_sent \<sigma> @ [post oc params fileName]"
    by (simp add: handleCompletion_client [OF assms(3,4,5)] p)
  moreover have "SendRequest L (omnisharp s) ''/autocomplete'' (query params fileName) \<sigma>
                = (Inr data, \<sigma>\<lparr>requests_sent := requests_sent \<sigma> @ [post oc params fileName]\<rparr>)"
    if "client_Do L (length (requests_sent \<sigma>)) (post oc params fileName) = Inr resp"
      and "Body resp = BodyStream data None" for resp data
    using that assms(3,5)
    by (simp add: SendRequest_client post_def query_def)
  ultimately show ?thesis by blast
qed


theorem completion_issues_one_POST_witness:
  \<open>requests_sent (snd (handleCompletion
        (stub_libs (Inr \<lparr>StatusCode = 200, Body = BodyStream stub_body None\<rparr>))
        stub_Server stub_params io0))
     = [\<lparr>HttpMethod = ''POST'', URL = ''http://localhost:2000/autocomplete'',
         Header = [(''Content-Type'', ''application/json'')],
         ReqBody = ''{"Column":4,"FileName":"/Foo.cs","Line":10}''\<rparr>]
   \<and> fst (SendRequest (stub_libs (Inr \<lparr>StatusCode = 200, Body = BodyStream stub_body None\<rparr>))
          (omnisharp stub_Server) ''/autocomplete'' stub_query io0)
     = Inr stub_body\<close>
proof -
  let ?r = "\<lparr>StatusCode = 200, Body = BodyStream stub_body None\<rparr>"
  let ?L = "stub_libs (Inr ?r) :: unit libs"
  note t = completion_issues_one_POST [where L = ?L and \<sigma> = io0,
      OF stub_facts(1) stub_facts(2) stub_facts(3)]
  have q: "GoMap [(''Line'', GoUint32 (Line (Pos stub_params))),
                  (''Column'', GoUint32 (Character (Pos stub_params))),
                  (''FileName'', GoString ''/Foo.cs'')] = stub_query"
    by (simp add: stub_query_def stub_params_def)
  have e: \<open>json_encode ?L stub_query = ''{"Column":4,"FileName":"/Foo.cs","Line":10}''\<close>
    by (simp add: stub_libs_def)
  have u: "baseURL (NewOmniSharpClient ''http://localhost:2000'') @ ''/autocomplete''
            = ''http://localhost:2000/autocomplete''"
    by (simp add: NewOmniSharpClient_def)
  from t [THEN conjunct1] t [THEN conjunct2, rule_format, of ?r stub_body]
  show ?thesis
    by (simp add: q e u stub_facts(4) io0_def)
qed

text \<open>The claim as stated, for every completion request, fails where no request is sent
  at all: on the server \<^verbatim>\<open>main\<close> builds (no client), on a server with a client for the
  document \<^verbatim>\<open>http://x/y\<close> (no file name), and on a server whose client has a URL that
  \<^verbatim>\<open>http.NewRequest\<close> refuses.\<close>

theorem one_POST_counterexample:
  "requests_sent (snd (handleCompletion (stub_libs (Inl ''connection refused''))
        (main_Server\<lparr>conn := Some StdioConn\<rparr>) stub_params io0)) = []
   \<and> requests_sent (snd (handleCompletion (stub_libs (Inl ''connection refused''))
        stub_Server web_params io0)) = []
   \<and> requests_sent (snd (handleCompletion (strict_libs (Inl ''connection refused''))
        (stub_Server\<lparr>omnisharp := Some (NewOmniSharpClient ''://localhost:2000'')\<rparr>)
        stub_params io0)) = []"
proof -
  have n: "omnisharp (main_Server\<lparr>conn := Some StdioConn\<rparr>) = None"
    by (simp add: main_Server_def)
  have a: "requests_sent (snd (handleCompletion (stub_libs (Inl ''connection refused''))
        (main_Server\<lparr>conn := Some StdioConn\<rparr>) stub_params io0)) = []"
    by (simp add: handleCompletion_nil [OF n] io0_def)
  have b: "requests_sent (snd (handleCompletion (stub_libs (Inl ''connection refused''))
        stub_Server web_params io0)) = []"
    by (simp add: handleCompletion_def stub_libs_def web_params_def io0_def)
  have c: "requests_sent (snd (handleCompletion (strict_libs (Inl ''connection refused''))
        (stub_Server\<lparr>omnisharp := Some (NewOmniSharpClient ''://localhost:2000'')\<rparr>)
        stub_params io0)) = []"
    by (simp add: handleCompletion_def SendRequest_def json_Marshal_def http_NewRequest_def
          strict_libs_def stub_libs_def stub_params_def NewOmniSharpClient_def io0_def)
  from a b c show ?thesis by simp
qed

text \<open>
  Claim C10. \<^verbatim>\<open>SendRequest\<close> never reads the status code of the response: whatever the
  code (4xx and 5xx too), a response whose body can be read is returned as a success, the
  body with a nil error. In \<^verbatim>\<open>handleCompletion\<close> such a response can then only fail in
  the decoding of the body, with a DecodeError.
\<close>

theorem status_code_ignored:
  assumes "supported request"
    and "url_Parse_error L (baseURL oc @ endpoint) = None"
    and "client_Do L (length (requests_sent \<sigma>))
           \<lparr>HttpMethod = ''POST'', URL = baseURL oc @ endpoint,
            Header = [(''Content-Type'', ''application/json'')],
            ReqBody = json_encode L request\<rparr>
         = Inr \<lparr>StatusCode = code, Body = BodyStream data None\<rparr>"
  shows "fst (SendRequest L (Some oc) endpoint request \<sigma>) = Inr data
    \<and> (\<forall>s params fileName e.
          omnisharp s = Some oc
          \<and> Filename L (URI (TextDocument params)) = Some fileName
          \<and> endpoint = ''/autocomplete''
          \<and> request = GoMap [(''Line'', GoUint32 (Line (Pos params))),
                             (''Column'', GoUint32 (Character (Pos params))),
                             (''FileName'', GoString fileName)]
          \<and> fst (handleCompletion L s params \<sigma>) = Inl e
          \<longrightarrow> (\<exists>err. e = Error err \<and> DecodeError err \<and> \<not> TransportError err
                     \<and> json_Unmarshal data = Inl err))"
proof -
  have a: "fst (SendRequest L (Some oc) endpoint request \<sigma>) = Inr data"
    using assms(3) by (simp add: SendRequest_client [OF assms(1,2)])
  have b: "\<exists>err. e = Error err \<and> DecodeError err \<and> \<not> TransportError err
              \<and> json_Unmarshal data = Inl err"
    if h: "omnisharp s = Some oc" "Filename L (URI (TextDocument params)) = Some fileName"
      "endpoint = ''/autocomplete''"
      "request = GoMap [(''Line'', GoUint32 (Line (Pos params))),
                        (''Column'', GoUint32 (Character (Pos params))),
                        (''FileName'', GoString fileName)]"
      "fst (handleCompletion L s params \<sigma>) = Inl e" for s params fileName e
  proof -
    have u: "url_Parse_error L (baseURL oc @ ''/autocomplete'') = None"
      using assms(2) h(3) by simp
    have d: "client_Do L (length (requests_sent \<sigma>)) (autocomplete_POST L oc params fileName)
             = Inr \<lparr>StatusCode = code, Body = BodyStream data None\<rparr>"
      using assms(3) h(3,4) by (simp add: autocomplete_POST_def)
    have "(case json_Unmarshal data of
             Inl err \<Rightarrow> Inl (Error err)
           | Inr cs \<Rightarrow> Inr \<lparr>IsIncomplete = False, Items = map item_of cs\<rparr>) = Inl e"
      using h(5) d by (simp add: handleCompletion_client [OF h(1,2) u])
    then obtain err where "json_Unmarshal data = Inl err" "e = Error err"
      by (cases "json_Unmarshal data") auto
    then show ?thesis
      using json_Unmarshal_error DecodeError_not_TransportError by blast
  qed
  from a b show ?thesis by blast
qed

theorem status_code_ignored_witness:
  "fst (SendRequest
          (stub_libs (Inr \<lparr>StatusCode = 500, Body = BodyStream ''Internal Server Error'' None\<rparr>))
          (Some (NewOmniSharpClient ''http://localhost:2000'')) ''/autocomplete'' stub_query io0)
     = Inr ''Internal Server Error''
   \<and> fst (SendRequest
          (stub_libs (Inr \<lparr>StatusCode = 404, Body = BodyStream ''[]'' None\<rparr>))
          (Some (NewOmniSharpClient ''http://localhost:2000'')) ''/autocomplete'' stub_query io0)
     = Inr ''[]''"
proof -
  have s: "supported stub_query"
    by (simp add: stub_query_def)
  have "fst (SendRequest (stub_libs (Inr \<lparr>StatusCode = code, Body = BodyStream data None\<rparr>))
          (Some (NewOmniSharpClient ''http://localhost:2000'')) ''/autocomplete'' stub_query io0)
     = Inr data" for code data
    by (rule status_code_ignored [OF s stub_facts(3) stub_facts(4), THEN conjunct1])
  then show ?thesis by simp
qed


section \<open>The program as \<^verbatim>\<open>main\<close> starts it\<close>

text \<open>
  Claim C3, amended. \<^verbatim>\<open>main\<close> builds the server with a nil \<^verbatim>\<open>omnisharp\<close> field and
  \<^verbatim>\<open>Start\<close> sets the connection only. On that server every completion request whose
  parameters decode and whose URI names a file dereferences the nil client in
  \<^verbatim>\<open>SendRequest\<close>; one whose URI names no file panics before that, in \<^verbatim>\<open>Filename\<close>; one
  whose parameters do not decode makes \<^verbatim>\<open>handle\<close> return the decoding error, without a
  panic and without a reply. None of them reaches the backend: every call of
  \<^verbatim>\<open>handleCompletion\<close> panics without an HTTP request, the program never sends any HTTP
  request, whatever messages arrive, and a completion request whose parameters decode
  ends the process with that panic.
\<close>

theorem main_never_reaches_backend:
  "omnisharp main_Server = None
   \<and> handleCompletion L (main_Server\<lparr>conn := Some StdioConn\<rparr>) params \<sigma> =
       (Inl (Panic (case Filename L (URI (TextDocument params)) of
                      None \<Rightarrow> FilenamePanic
                    | Some fileName \<Rightarrow> NilPointerDereference)), \<sigma>)
   \<and> (\<forall>req. Method req = ''textDocument/completion''
         \<longrightarrow> handle L (main_Server\<lparr>conn := Some StdioConn\<rparr>) reply req \<sigma> =
               (case UnmarshalTo_CompletionParams L (Params req) of
                  Inl msg \<Rightarrow> (Inr (Some (ParamsErr msg)), \<sigma>)
                | Inr ps \<Rightarrow>
                    (Inl (case Filename L (URI (TextDocument ps)) of
                            None \<Rightarrow> FilenamePanic
                          | Some fileName \<Rightarrow> NilPointerDereference), \<sigma>)))
   \<and> requests_sent (snd (main_go pol L incoming)) = []
   \<and> (\<forall>req. Method req = ''textDocument/completion''
             \<and> UnmarshalTo_CompletionParams L (Params req) = Inr params
         \<longrightarrow> main_go pol L (req # incoming) =
               (Crashed (case Filename L (URI (TextDocument params)) of
                           None \<Rightarrow> FilenamePanic
                         | Some fileName \<Rightarrow> NilPointerDereference),
                \<lparr>requests_sent = [], replies_sent = []\<rparr>))"
proof -
  let ?s = "main_Server\<lparr>conn := Some StdioConn\<rparr>"
  have n: "omnisharp ?s = None"
    by (simp add: main_Server_def)
  have hc: "handleCompletion L ?s params \<sigma> =
       (Inl (Panic (case Filename L (URI (TextDocument params)) of
                      None \<Rightarrow> FilenamePanic
                    | Some fileName \<Rightarrow> NilPointerDereference)), \<sigma>)" for params \<sigma>
    by (rule handleCompletion_nil [OF n])
  have hd: "handle L ?s reply req \<sigma> =
               (case UnmarshalTo_CompletionParams L (Params req) of
                  Inl msg \<Rightarrow> (Inr (Some (ParamsErr msg)), \<sigma>)
                | Inr ps \<Rightarrow>
                    (Inl (case Filename L (URI (TextDocument ps)) of
                            None \<Rightarrow> FilenamePanic
                          | Some fileName \<Rightarrow> NilPointerDereference), \<sigma>))"
    if "Method req = ''textDocument/completion''" for req
    using that
    by (simp add: handle_def MethodInitialize_def MethodTextDocumentCompletion_def hc
          split: sum.splits)
  have rs: "requests_sent (snd (main_go pol L incoming)) = []"
    using conn_run_nil_requests [OF n, of pol L incoming "\<lparr>requests_sent = [], replies_sent = []\<rparr>"]
    by (simp add: main_go_def Start_def)
  have cr: "main_go pol L (req # incoming) =
               (Crashed (case Filename L (URI (TextDocument params)) of
                           None \<Rightarrow> FilenamePanic
                         | Some fileName \<Rightarrow> NilPointerDereference),
                \<lparr>requests_sent = [], replies_sent = []\<rparr>)"
    if "Method req = ''textDocument/completion''"
      and "UnmarshalTo_CompletionParams L (Params req) = Inr params" for req
    using that by (simp add: main_go_def Start_def handle_completion hc)
  show ?thesis
    using hc hd rs cr by (simp add: main_Server_def)
qed

theorem main_never_reaches_backend_witness:
  "handleCompletion (stub_libs (Inr \<lparr>StatusCode = 200, Body = BodyStream stub_body None\<rparr>))
     (main_Server\<lparr>conn := Some StdioConn\<rparr>) stub_params io0
     = (Inl (Panic NilPointerDereference), io0)
   \<and> main_go AbortOnHandlerError (stub_libs (Inr \<lparr>StatusCode = 200, Body = BodyStream stub_body None\<rparr>))
        [initialize_request, stub_request, initialize_request]
     = (Crashed NilPointerDereference,
        \<lparr>requests_sent = [],
         replies_sent = [(initialize_request, Inr (ResultInitialize stub_capabilities))]\<rparr>)"
proof -
  let ?L = "stub_libs (Inr \<lparr>StatusCode = 200, Body = BodyStream stub_body None\<rparr>) :: unit libs"
  have hc: "handleCompletion ?L (main_Server\<lparr>conn := Some StdioConn\<rparr>) stub_params \<sigma>
      = (Inl (Panic NilPointerDereference), \<sigma>)" for \<sigma>
    using main_never_reaches_backend [of ?L stub_params \<sigma>, THEN conjunct2, THEN conjunct1]
    by (simp add: stub_facts)
  have "handle ?L (main_Server\<lparr>conn := Some StdioConn\<rparr>) (conn_replier ?L stub_request) stub_request \<sigma>
      = (Inl NilPointerDereference, \<sigma>)" for \<sigma>
    by (simp add: handle_completion [OF stub_facts(5) stub_facts(6)] hc)
  moreover have "handle ?L (main_Server\<lparr>conn := Some StdioConn\<rparr>) (conn_replier ?L initialize_request)
       initialize_request \<sigma>
      = (Inr None, \<sigma>\<lparr>replies_sent := replies_sent \<sigma> @
           [(initialize_request, Inr (ResultInitialize stub_capabilities))]\<rparr>)" for \<sigma>
    by (simp add: handle_def MethodInitialize_def initialize_request_def stub_libs_def
        handleInitialize_def conn_replier_def stub_capabilities_def)
  ultimately show ?thesis
    using hc by (simp add: main_go_def Start_def)
qed

text \<open>The claim as stated fails on two completion requests to that server, neither of
  which dereferences the nil client: one whose parameters do not decode (\<^verbatim>\<open>handle\<close>
  returns the error, main.go lines 48 to 50), and one for the document
  \<^verbatim>\<open>http://x/y\<close>, where \<^verbatim>\<open>Filename\<close> panics before \<^verbatim>\<open>SendRequest\<close> is entered.\<close>

theorem nil_dereference_counterexample:
  "handle (stub_libs (Inl ''connection refused'')) (main_Server\<lparr>conn := Some StdioConn\<rparr>)
      (conn_replier (stub_libs (Inl ''connection refused'')) garbled_request) garbled_request io0
     = (Inr (Some (ParamsErr ''malformed'')), io0)
   \<and> handleCompletion (stub_libs (Inl ''connection refused'')) (main_Server\<lparr>conn := Some StdioConn\<rparr>)
        web_params io0
     = (Inl (Panic FilenamePanic), io0)"
proof -
  have "omnisharp (main_Server\<lparr>conn := Some StdioConn\<rparr>) = None"
    by (simp add: main_Server_def)
  then show ?thesis
    by (simp add: handleCompletion_nil handle_def MethodInitialize_def
          MethodTextDocumentCompletion_def garbled_request_def stub_libs_def web_params_def)
qed

end
